(* ===== verification/Prelude.thy ===== *)
theory Prelude
  imports Main "HOL-Library.Word"
begin

text \<open>
  Shared vocabulary of the host-runtime model: the types that name the
  program's data (paths, bytes, 32-bit guest addresses), the fail-fast
  composition of fallible stages (Rust's \<open>?\<close> / \<open>anyhow::Result\<close>), and the
  generic lemmas on sums, options and byte lists that the component theories
  share.  The collection \<open>host_simps\<close> gathers the evaluation equations of
  the stages so that the end-to-end proofs of the root theory are a few
  \<open>simp add: host_simps\<close> steps.
\<close>

named_theorems host_simps "evaluation equations of the host stages"

type_synonym path = string
type_synonym byte = "8 word"
type_synonym u32 = "32 word"

section \<open>Fail-fast composition of fallible stages\<close>

text \<open>
  \<open>bind_res m f\<close> is Rust's \<open>m?\<close> followed by \<open>f\<close>: an \<open>Inl\<close> error
  short-circuits, an \<open>Inr\<close> value is passed on.
\<close>

definition bind_res :: "'e + 'a \<Rightarrow> ('a \<Rightarrow> 'e + 'b) \<Rightarrow> 'e + 'b" where
  "bind_res m f = (case m of Inl e \<Rightarrow> Inl e | Inr a \<Rightarrow> f a)"

definition map_err :: "('e \<Rightarrow> 'f) \<Rightarrow> 'e + 'a \<Rightarrow> 'f + 'a" where
  "map_err g m = (case m of Inl e \<Rightarrow> Inl (g e) | Inr a \<Rightarrow> Inr a)"

lemma bind_res_Inl [simp]: "bind_res (Inl e) f = Inl e"
  by (simp add: bind_res_def)

lemma bind_res_Inr [simp]: "bind_res (Inr a) f = f a"
  by (simp add: bind_res_def)

lemma bind_res_eq_Inr:
  "bind_res m f = Inr b \<longleftrightarrow> (\<exists>a. m = Inr a \<and> f a = Inr b)"
  by (cases m) simp_all

lemma bind_res_eq_Inl:
  "bind_res m f = Inl e \<longleftrightarrow> m = Inl e \<or> (\<exists>a. m = Inr a \<and> f a = Inl e)"
  by (cases m) simp_all

lemma map_err_Inl [simp]: "map_err g (Inl e) = Inl (g e)"
  by (simp add: map_err_def)

lemma map_err_Inr [simp]: "map_err g (Inr a) = Inr a"
  by (simp add: map_err_def)

lemma map_err_eq_Inr [simp]: "map_err g m = Inr a \<longleftrightarrow> m = Inr a"
  by (cases m) simp_all

section \<open>Byte lists as linear memory\<close>

text \<open>
  A guest's linear memory is a byte list; \<open>read_bytes\<close> and
  \<open>write_bytes\<close> are the slice read and the slice copy of a memory access
  that the caller has already bounds-checked.
\<close>

definition read_bytes :: "byte list \<Rightarrow> nat \<Rightarrow> nat \<Rightarrow> byte list" where
  "read_bytes m p n = take n (drop p m)"

definition write_bytes :: "byte list \<Rightarrow> nat \<Rightarrow> byte list \<Rightarrow> byte list" where
  "write_bytes m p bs = take p m @ bs @ drop (p + length bs) m"

lemma length_write_bytes [simp]:
  "p + length bs \<le> length m \<Longrightarrow> length (write_bytes m p bs) = length m"
  by (simp add: write_bytes_def)

lemma read_write_bytes_same [simp]:
  "p + length bs \<le> length m \<Longrightarrow> read_bytes (write_bytes m p bs) p (length bs) = bs"
  by (simp add: read_bytes_def write_bytes_def)

lemma read_write_bytes_disjoint:
  assumes "p + length bs \<le> length m" and "q + n \<le> p"
  shows "read_bytes (write_bytes m p bs) q n = read_bytes m q n"
  using assms by (simp add: read_bytes_def write_bytes_def take_drop min_def)

lemma read_write_bytes_after:
  assumes "p + length bs \<le> length m" and "p + length bs \<le> q"
  shows "read_bytes (write_bytes m p bs) q n = read_bytes m q n"
proof -
  have "drop q (write_bytes m p bs) = drop q m"
    using assms by (simp add: write_bytes_def)
  then show ?thesis by (simp add: read_bytes_def)
qed

lemma read_write_bytes_inside:
  assumes "p + length bs \<le> length m" and "k + j \<le> length bs"
  shows "read_bytes (write_bytes m p bs) (p + k) j = take j (drop k bs)"
  using assms by (simp add: read_bytes_def write_bytes_def)

lemma length_read_bytes [simp]:
  "p + n \<le> length m \<Longrightarrow> length (read_bytes m p n) = n"
  by (simp add: read_bytes_def)

end
