(* ===== verification/Wit.thy ===== *)
theory Wit
  imports Prelude
begin

text \<open>
  The typed interface contract shared by host and guest (the WIT world that
  \<open>bindgen!\<close> reads on both sides, src/component/component.wit, which is not
  under src/ and is modelled from the spec): component-model types, the
  one record \<open>request\<close> with its single text field, the one function type
  \<open>handleevent: func(event: request) -> request\<close>, and the names under
  which the world exports it.  Values cross the boundary only in their
  flat canonical-ABI form (see Marshal).  Guest traps live here
  too, since both the call and the instantiation report them.
\<close>

section \<open>Component-model types\<close>

datatype wit_type =
    WBool
  | WU8
  | WU32
  | WU64
  | WString
  | WList wit_type
  | WTuple "wit_type list"
  | WOption wit_type
  | WResult "wit_type option" "wit_type option"
  | WRecord "(string \<times> wit_type) list"
  | WOwn string
  | WBorrow string

record func_type =
  ft_params :: "wit_type list"
  ft_results :: "wit_type list"

section \<open>Traps\<close>

text \<open>A guest-side fault: it aborts the current call (spec, glossary).\<close>

datatype trap =
    TrapUnreachable
  | TrapMemoryOutOfBounds
  | TrapAbort string

section \<open>The interface of the handler world\<close>

text \<open>
  \<open>bindings::exports::test::test::handler_interface::Request\<close>, the record
  \<open>{ uri: String }\<close> the host builds (main.rs line 79) and the guest returns.
\<close>

record request =
  uri :: string

definition request_type :: wit_type where
  "request_type = WRecord [(''uri'', WString)]"

definition handleevent_type :: func_type where
  "handleevent_type = \<lparr>ft_params = [request_type], ft_results = [request_type]\<rparr>"

definition handler_interface_name :: string where
  "handler_interface_name = ''test:test/handler-interface''"

definition handleevent_name :: string where
  "handleevent_name = ''handleevent''"

lemmas wit_defs [host_simps] = request_type_def handleevent_type_def
  handler_interface_name_def handleevent_name_def

end
