(* ===== verification/Marshal.thy ===== *)
theory Marshal
  imports Wit
begin

unbundle bit_operations_syntax

text \<open>
  Data marshaling between host and guest (spec section 4.4), following the
  component model's canonical ABI as wasmtime implements it for the one
  function \<open>handleevent(request) -> request\<close>: the text field is passed as a
  pointer/length pair into the guest's linear memory, the string bytes being
  copied into a buffer the guest's allocator (\<open>cabi_realloc\<close>) hands out; the
  record result, too large for one flat value, comes back through a return
  area holding the pointer and the length as little-endian 32-bit words.
  Lifting a string back on the host checks bounds and UTF-8.  All of this is
  library code (wasmtime, wit-bindgen) that the runner only calls, so it is
  modelled from the spec and the canonical ABI.
\<close>

section \<open>Strings as bytes\<close>

text \<open>
  A Rust \<open>String\<close> is its UTF-8 byte sequence; a HOL \<open>char\<close> is one byte,
  so a string of the model is that byte sequence and \<open>str_bytes\<close> is
  \<open>String::as_bytes\<close>.
\<close>

definition byte_of_char :: "char \<Rightarrow> byte" where
  "byte_of_char c = word_of_nat (of_char c :: nat)"

definition char_of_byte :: "byte \<Rightarrow> char" where
  "char_of_byte b = char_of (unat b)"

definition str_bytes :: "string \<Rightarrow> byte list" where
  "str_bytes s = map byte_of_char s"

lemma char_of_byte_of_char [simp]: "char_of_byte (byte_of_char c) = c"
  by (simp add: byte_of_char_def char_of_byte_def unat_of_nat)

lemma byte_of_char_of_byte [simp]: "byte_of_char (char_of_byte b) = b"
proof -
  have "unat b < 256" using unsigned_less [of b] by simp
  then show ?thesis by (simp add: byte_of_char_def char_of_byte_def)
qed

lemma map_char_of_byte_str_bytes [simp]: "map char_of_byte (str_bytes s) = s"
  by (simp add: str_bytes_def comp_def)

lemma length_str_bytes [simp]: "length (str_bytes s) = length s"
  by (simp add: str_bytes_def)

section \<open>Little-endian 32-bit words\<close>

definition le32_encode :: "u32 \<Rightarrow> byte list" where
  "le32_encode w =
     [ucast w, ucast (drop_bit 8 w), ucast (drop_bit 16 w), ucast (drop_bit 24 w)]"

definition le32_decode :: "byte list \<Rightarrow> u32" where
  "le32_decode bs =
     ucast (bs ! 0) OR push_bit 8 (ucast (bs ! 1)) OR
     push_bit 16 (ucast (bs ! 2)) OR push_bit 24 (ucast (bs ! 3))"

lemma length_le32_encode [simp]: "length (le32_encode w) = 4"
  by (simp add: le32_encode_def)

lemma le32_decode_encode [simp]: "le32_decode (le32_encode w) = w"
proof (rule bit_word_eqI)
  fix n assume "n < LENGTH(32)"
  then show "bit (le32_decode (le32_encode w)) n = bit w n"
    unfolding le32_decode_def le32_encode_def
    by (cases "n < 8"; cases "n < 16"; cases "n < 24") (auto simp: bit_simps)
qed

section \<open>UTF-8 well-formedness\<close>

text \<open>
  \<open>core::str::from_utf8\<close>, which wasmtime applies to every string it lifts
  out of guest memory: the well-formed byte sequences of the Unicode standard
  (table 3-7), so no overlong form, no surrogate, nothing above U+10FFFF.
\<close>

definition in_range :: "byte \<Rightarrow> byte \<Rightarrow> byte \<Rightarrow> bool" where
  "in_range lo hi b \<longleftrightarrow> lo \<le> b \<and> b \<le> hi"

definition second_lo :: "byte \<Rightarrow> byte" where
  "second_lo b = (if b = 0xE0 then 0xA0 else if b = 0xF0 then 0x90 else 0x80)"

definition second_hi :: "byte \<Rightarrow> byte" where
  "second_hi b = (if b = 0xED then 0x9F else if b = 0xF4 then 0x8F else 0xBF)"

definition utf8_seq :: "byte \<Rightarrow> byte list \<Rightarrow> byte list option" where
  "utf8_seq b bs =
     (if b \<le> 0x7F then Some bs
      else if in_range 0xC2 0xDF b then
        (case bs of
           c1 # rest \<Rightarrow> if in_range 0x80 0xBF c1 then Some rest else None
         | _ \<Rightarrow> None)
      else if in_range 0xE0 0xEF b then
        (case bs of
           c1 # c2 # rest \<Rightarrow>
             if in_range (second_lo b) (second_hi b) c1 \<and> in_range 0x80 0xBF c2
             then Some rest else None
         | _ \<Rightarrow> None)
      else if in_range 0xF0 0xF4 b then
        (case bs of
           c1 # c2 # c3 # rest \<Rightarrow>
             if in_range (second_lo b) (second_hi b) c1 \<and> in_range 0x80 0xBF c2 \<and>
                in_range 0x80 0xBF c3
             then Some rest else None
         | _ \<Rightarrow> None)
      else None)"

lemma utf8_seq_length: "utf8_seq b bs = Some rest \<Longrightarrow> length rest \<le> length bs"
  by (auto simp: utf8_seq_def split: if_splits list.splits)

lemma utf8_seq_append:
  "utf8_seq b bs = Some rest \<Longrightarrow> utf8_seq b (bs @ ys) = Some (rest @ ys)"
  by (auto simp: utf8_seq_def split: if_splits list.splits)

function utf8_valid :: "byte list \<Rightarrow> bool" where
  "utf8_valid [] = True"
| "utf8_valid (b # bs) = (case utf8_seq b bs of None \<Rightarrow> False | Some rest \<Rightarrow> utf8_valid rest)"
  by pat_completeness auto
termination
  by (relation "measure length") (auto dest: utf8_seq_length)

section \<open>The guest's memory and allocator\<close>

text \<open>
  The part of a guest instance the marshaling touches: its linear memory and
  the allocator's heap pointer.  \<open>cabi_realloc\<close> is the allocator export the
  canonical ABI calls to obtain a buffer; it bumps the heap pointer and grows
  the memory by whole 64 KiB pages when the buffer does not fit, trapping
  (Rust's \<open>handle_alloc_error\<close> aborts) when a 32-bit memory cannot grow
  that far.
\<close>

record guest_state =
  g_mem :: "byte list"
  g_heap :: nat

definition page_size :: nat where
  "page_size = 65536"

definition max_mem :: nat where
  "max_mem = 2 ^ 32"

definition guest_wf :: "guest_state \<Rightarrow> bool" where
  "guest_wf g \<longleftrightarrow>
     g_heap g \<le> length (g_mem g) \<and> length (g_mem g) \<le> max_mem \<and>
     page_size dvd length (g_mem g)"

definition grow_pages :: "nat \<Rightarrow> nat \<Rightarrow> nat" where
  "grow_pages have need = (need - have + (page_size - 1)) div page_size"

definition cabi_realloc :: "guest_state \<Rightarrow> nat \<Rightarrow> trap + guest_state \<times> nat" where
  "cabi_realloc g n =
     (let p = g_heap g; need = p + n in
      if need \<le> length (g_mem g) then Inr (g\<lparr>g_heap := need\<rparr>, p)
      else
        (let extra = grow_pages (length (g_mem g)) need * page_size in
         if length (g_mem g) + extra \<le> max_mem
         then Inr (g\<lparr>g_mem := g_mem g @ replicate extra 0, g_heap := need\<rparr>, p)
         else Inl TrapUnreachable))"

text \<open>
  The allocator's \<open>cabi_dealloc\<close>: a bump allocator releases a buffer only
  when it is the most recent one, which is the pattern of a call (the host's
  argument buffer is freed by the post-return function right after the call).
\<close>

definition cabi_free :: "guest_state \<Rightarrow> nat \<Rightarrow> nat \<Rightarrow> guest_state" where
  "cabi_free g p n = (if p + n = g_heap g then g\<lparr>g_heap := p\<rparr> else g)"

section \<open>Lowering and lifting\<close>

text \<open>
  The host-side errors of marshaling: a trap of the guest's allocator, and the
  checks wasmtime makes on what it lowers and lifts.
\<close>

datatype abi_error =
    AbiTrap trap
  | StringTooLong
  | PointerOutOfBounds
  | Misaligned
  | InvalidUtf8

definition max_string_bytes :: nat where
  "max_string_bytes = 2 ^ 31 - 1"

definition lower_string :: "guest_state \<Rightarrow> string \<Rightarrow> abi_error + guest_state \<times> u32 \<times> u32" where
  "lower_string g s =
     (let bs = str_bytes s; n = length bs in
      if max_string_bytes < n then Inl StringTooLong
      else
        (case cabi_realloc g n of
           Inl t \<Rightarrow> Inl (AbiTrap t)
         | Inr (g', p) \<Rightarrow>
             Inr (g'\<lparr>g_mem := write_bytes (g_mem g') p bs\<rparr>, word_of_nat p, word_of_nat n)))"

definition lift_string :: "byte list \<Rightarrow> u32 \<Rightarrow> u32 \<Rightarrow> abi_error + string" where
  "lift_string m p n =
     (if length m < unat p + unat n then Inl PointerOutOfBounds
      else
        (let bs = read_bytes m (unat p) (unat n) in
         if utf8_valid bs then Inr (map char_of_byte bs) else Inl InvalidUtf8))"

text \<open>The flat parameters of \<open>handleevent\<close>: the record's one string.\<close>

definition lower_request :: "guest_state \<Rightarrow> request \<Rightarrow> abi_error + guest_state \<times> u32 list" where
  "lower_request g r =
     bind_res (lower_string g (uri r)) (\<lambda>(g', p, n). Inr (g', [p, n]))"

text \<open>The result: a 4-aligned return area holding pointer and length.\<close>

definition lift_request :: "byte list \<Rightarrow> u32 \<Rightarrow> abi_error + request" where
  "lift_request m ret =
     (if unat ret mod 4 \<noteq> 0 then Inl Misaligned
      else if length m < unat ret + 8 then Inl PointerOutOfBounds
      else
        (let p = le32_decode (read_bytes m (unat ret) 4);
             n = le32_decode (read_bytes m (unat ret + 4) 4)
         in bind_res (lift_string m p n) (\<lambda>s. Inr \<lparr>uri = s\<rparr>)))"

section \<open>Properties of the marshaling layer\<close>

text \<open>
  The allocator keeps the memory well formed (a whole number of pages, at
  most 4 GiB, heap inside it), hands out in-bounds buffers without
  disturbing what was there, and succeeds whenever the request fits in a
  32-bit address space.  Lowering a string and lifting it back is the
  identity on well-formed UTF-8, and valid UTF-8 is closed under
  concatenation.
\<close>

lemma grow_pages_bounds:
  fixes len need :: nat
  assumes "page_size dvd len" "len < need"
  shows "need \<le> len + grow_pages len need * page_size"
    and "len + grow_pages len need * page_size < need + page_size"
    and "page_size dvd len + grow_pages len need * page_size"
proof -
  let ?x = "need - len + (page_size - 1)"
  have m: "?x div page_size * page_size + ?x mod page_size = ?x"
    by (rule div_mult_mod_eq)
  have "?x mod page_size < page_size" by (simp add: page_size_def)
  with m assms(2) show "need \<le> len + grow_pages len need * page_size"
    unfolding grow_pages_def by linarith
  from m assms(2) show "len + grow_pages len need * page_size < need + page_size"
    unfolding grow_pages_def by (simp add: page_size_def)
  from assms(1) show "page_size dvd len + grow_pages len need * page_size" by simp
qed

lemma dvd_le_of_lt_add:
  fixes a b c ps :: nat
  assumes "0 < ps" "ps dvd a" "ps dvd b" "a < c + ps" "c \<le> b"
  shows "a \<le> b"
proof -
  obtain k m where a: "a = ps * k" and b: "b = ps * m" using assms(2,3) by (auto elim!: dvdE)
  with assms(4,5) have "ps * k < ps * Suc m" by simp
  then have "k \<le> m" by (metis mult_less_cancel1 less_Suc_eq_le)
  then show ?thesis using a b by simp
qed

lemma cabi_realloc_wf:
  assumes wf: "guest_wf g" and r: "cabi_realloc g n = Inr (g', p)"
  shows "guest_wf g' \<and> p = g_heap g \<and> g_heap g' = p + n \<and> p + n \<le> length (g_mem g') \<and>
         take (length (g_mem g)) (g_mem g') = g_mem g"
proof (cases "g_heap g + n \<le> length (g_mem g)")
  case True
  with wf r show ?thesis by (auto simp: cabi_realloc_def guest_wf_def Let_def)
next
  case False
  have ps: "0 < page_size" "page_size dvd length (g_mem g)"
    using wf by (simp_all add: page_size_def guest_wf_def)
  note gb = grow_pages_bounds [OF ps(2), of "g_heap g + n"]
  from False r gb show ?thesis
    by (auto simp: cabi_realloc_def guest_wf_def Let_def split: if_splits)
qed

lemma cabi_realloc_succeeds:
  assumes wf: "guest_wf g" and fits: "g_heap g + n \<le> max_mem"
  shows "\<exists>g'. cabi_realloc g n = Inr (g', g_heap g)"
proof (cases "g_heap g + n \<le> length (g_mem g)")
  case True
  then show ?thesis by (simp add: cabi_realloc_def Let_def)
next
  case False
  have ps: "0 < page_size" "page_size dvd length (g_mem g)"
    using wf by (simp_all add: page_size_def guest_wf_def)
  note gb = grow_pages_bounds [OF ps(2), of "g_heap g + n"]
  let ?len' = "length (g_mem g) + grow_pages (length (g_mem g)) (g_heap g + n) * page_size"
  have "page_size dvd ?len'" "?len' < g_heap g + n + page_size"
    using gb False by simp_all
  moreover have "page_size dvd max_mem" by (simp add: page_size_def max_mem_def)
  ultimately have "?len' \<le> max_mem"
    using fits ps(1) by (blast intro: dvd_le_of_lt_add)
  with False show ?thesis by (simp add: cabi_realloc_def Let_def)
qed

text \<open>
  Well-formed UTF-8 is closed under concatenation: the validator never
  rejects the concatenation of two sequences it accepts.
\<close>

lemma utf8_valid_append:
  "utf8_valid xs \<Longrightarrow> utf8_valid ys \<Longrightarrow> utf8_valid (xs @ ys)"
  by (induction xs rule: utf8_valid.induct) (auto simp: utf8_seq_append split: option.splits)

lemma utf8_valid_ascii:
  "(\<forall>c \<in> set s. of_char c < (128::nat)) \<Longrightarrow> utf8_valid (str_bytes s)"
proof (induction s)
  case Nil
  then show ?case by (simp add: str_bytes_def)
next
  case (Cons c s)
  then have "of_char c < (128::nat)" by simp
  then have "byte_of_char c \<le> 0x7F"
    by (simp add: byte_of_char_def word_le_nat_alt unat_of_nat)
  with Cons show ?case by (simp add: str_bytes_def utf8_seq_def)
qed

lemma unat_word_of_nat_small: "n < 2 ^ 32 \<Longrightarrow> unat (word_of_nat n :: u32) = n"
  by (simp add: unat_of_nat)

lemma lower_string_wf:
  assumes wf: "guest_wf g" and lo: "lower_string g s = Inr (g', p, n)"
  shows "guest_wf g' \<and> unat n = length s \<and> unat p + unat n \<le> length (g_mem g') \<and>
         read_bytes (g_mem g') (unat p) (unat n) = str_bytes s \<and>
         (unat p = g_heap g \<or> unat n = 0) \<and> g_heap g' = g_heap g + unat n"
proof -
  obtain g1 q where r: "cabi_realloc g (length s) = Inr (g1, q)"
    and g': "g' = g1\<lparr>g_mem := write_bytes (g_mem g1) q (str_bytes s)\<rparr>"
    and p: "p = word_of_nat q" and n: "n = word_of_nat (length s)"
    and short: "length s \<le> max_string_bytes"
    using lo by (auto simp: lower_string_def Let_def split: if_splits sum.splits)
  from cabi_realloc_wf [OF wf r]
  have wf1: "guest_wf g1" and q: "q + length s \<le> length (g_mem g1)"
    and qh: "q = g_heap g" and h1: "g_heap g1 = q + length s" by auto
  then have len1: "length (g_mem g1) \<le> 2 ^ 32" by (simp add: guest_wf_def max_mem_def)
  have un: "unat n = length s"
    using short n by (simp add: max_string_bytes_def unat_of_nat)
  have wf': "guest_wf g'" using wf1 q g' by (simp add: guest_wf_def)
  have up: "unat p \<le> q" using p by (simp add: unat_of_nat)
  show ?thesis
  proof (cases "length s = 0")
    case True
    then show ?thesis using wf' un g' up q qh h1 by (simp add: read_bytes_def str_bytes_def)
  next
    case False
    with q len1 have "q < 2 ^ 32" by linarith
    then have "unat p = q" using p by (simp add: unat_of_nat)
    moreover have "read_bytes (write_bytes (g_mem g1) q (str_bytes s)) q (length s) = str_bytes s"
      using read_write_bytes_same [of q "str_bytes s" "g_mem g1"] q by simp
    ultimately show ?thesis using wf' un g' q qh h1 by simp
  qed
qed

text \<open>
  Lowering a well-formed UTF-8 string into a well-formed guest memory
  and lifting it back from the pointer and length the lowering produced
  gives the same string.
\<close>

lemma lift_lower_string:
  assumes wf: "guest_wf g" and valid: "utf8_valid (str_bytes s)"
    and lo: "lower_string g s = Inr (g', p, n)"
  shows "lift_string (g_mem g') p n = Inr s"
proof -
  from lower_string_wf [OF wf lo]
  have "unat p + unat n \<le> length (g_mem g')"
    and "read_bytes (g_mem g') (unat p) (unat n) = str_bytes s" by auto
  with valid show ?thesis by (simp add: lift_string_def)
qed

lemma lower_string_succeeds:
  assumes wf: "guest_wf g" and short: "length s \<le> max_string_bytes"
    and fits: "g_heap g + length s \<le> max_mem"
  shows "\<exists>r. lower_string g s = Inr r"
proof -
  obtain g1 where "cabi_realloc g (length s) = Inr (g1, g_heap g)"
    using cabi_realloc_succeeds [OF wf fits] by blast
  with short show ?thesis by (simp add: lower_string_def Let_def)
qed

lemma lower_request_succeeds:
  assumes wf: "guest_wf g" and short: "length (uri r) \<le> max_string_bytes"
    and fits: "g_heap g + length (uri r) \<le> max_mem"
  shows "\<exists>g1 args. lower_request g r = Inr (g1, args)"
proof -
  obtain g1 where "cabi_realloc g (length (uri r)) = Inr (g1, g_heap g)"
    using cabi_realloc_succeeds [OF wf fits] by blast
  with short show ?thesis by (simp add: lower_request_def lower_string_def Let_def)
qed


text \<open>
  A 32-bit guest memory bounds every allocation: when a buffer would
  end beyond 4 GiB, the allocator traps instead of handing out an address
  that wraps around.
\<close>

lemma cabi_realloc_exhausted:
  assumes wf: "guest_wf g" and over: "max_mem < g_heap g + n"
  shows "cabi_realloc g n = Inl TrapUnreachable"
proof -
  have big: "\<not> g_heap g + n \<le> length (g_mem g)" using wf over by (simp add: guest_wf_def)
  have ps: "page_size dvd length (g_mem g)" using wf by (simp add: guest_wf_def)
  have "g_heap g + n \<le> length (g_mem g) + grow_pages (length (g_mem g)) (g_heap g + n) * page_size"
    using grow_pages_bounds(1) [OF ps] big by simp
  with over big show ?thesis by (simp add: cabi_realloc_def Let_def)
qed

text \<open>
  A string longer than the canonical ABI's maximum of 2^31 - 1 bytes is
  refused by the lowering, before the guest's allocator is called.
\<close>

lemma lower_string_too_long:
  "max_string_bytes < length s \<Longrightarrow> lower_string g s = Inl StringTooLong"
  by (simp add: lower_string_def)

text \<open>
  Decoding four little-endian bytes into a 32-bit word and encoding the
  word again gives back the four bytes.
\<close>

lemma le32_encode_decode:
  assumes "length bs = 4" shows "le32_encode (le32_decode bs) = bs"
proof -
  obtain b0 b1 b2 b3 where bs: "bs = [b0, b1, b2, b3]"
    using assms by (auto simp: length_Suc_conv numeral_eq_Suc)
  show ?thesis
    unfolding bs le32_encode_def le32_decode_def
    by (simp, intro conjI; rule bit_word_eqI; auto simp: bit_simps dest: bit_imp_le_length)
qed

end
