(* ===== verification/Guest.thy ===== *)
theory Guest
  imports Marshal
begin

text \<open>
  The guest side of the contract: the Rust component of
  src/component/rust/src/lib.rs, whose \<open>handleevent\<close> returns its argument,
  and the export glue that \<open>bindings::export!\<close> generates around it (modelled
  from the canonical ABI): it reads the string its flat parameters point at,
  calls \<open>handleevent\<close>, and stores pointer and length of the returned
  string in the static return area, whose address it returns.  A guest
  function is a \<open>guest_body\<close>: on the instance's memory and the flat
  arguments it returns the new memory and the flat results, or traps
  (\<open>Inl\<close>), or never returns (\<open>None\<close>).
\<close>

type_synonym guest_body =
  "guest_state \<Rightarrow> u32 list \<Rightarrow> (trap + guest_state \<times> u32 list) option"

section \<open>lib.rs\<close>

text \<open>\<open>impl Guest for Component { fn handleevent(mut event: Request) -> Request { event } }\<close>\<close>

definition handleevent :: "request \<Rightarrow> request" where
  "handleevent event = event"

section \<open>The generated export glue\<close>

text \<open>
  The static \<open>RET_AREA\<close> of the bindings: 8 bytes, 4-aligned, in the data
  segment below the allocator's heap.
\<close>

definition ret_area :: nat where
  "ret_area = 1024"

definition store_ret :: "guest_state \<Rightarrow> u32 \<Rightarrow> u32 \<Rightarrow> (trap + guest_state \<times> u32 list) option" where
  "store_ret g p n =
     (if length (g_mem g) < ret_area + 8 then Some (Inl TrapMemoryOutOfBounds)
      else Some (Inr (g\<lparr>g_mem := write_bytes (g_mem g) ret_area (le32_encode p @ le32_encode n)\<rparr>,
                      [word_of_nat ret_area])))"

text \<open>
  The returned \<open>String\<close> is moved out of the function: when it is the
  argument's string (as for \<open>handleevent\<close>) its buffer is the one the host
  wrote, otherwise it is a fresh buffer from the guest's allocator.  Reading
  the argument does not re-validate UTF-8 (\<open>from_utf8_unchecked\<close>).
\<close>

definition export_handleevent :: "(request \<Rightarrow> request) \<Rightarrow> guest_body" where
  "export_handleevent f g args =
     (case args of
        [p, n] \<Rightarrow>
          (if length (g_mem g) < unat p + unat n then Some (Inl TrapMemoryOutOfBounds)
           else
             (let s = map char_of_byte (read_bytes (g_mem g) (unat p) (unat n));
                  r = f \<lparr>uri = s\<rparr>
              in if uri r = s then store_ret g p n
                 else
                   (case cabi_realloc g (length (uri r)) of
                      Inl t \<Rightarrow> Some (Inl t)
                    | Inr (g', q) \<Rightarrow>
                        store_ret (g'\<lparr>g_mem := write_bytes (g_mem g') q (str_bytes (uri r))\<rparr>)
                          (word_of_nat q) (word_of_nat (length (uri r))))))
      | _ \<Rightarrow> Some (Inl TrapUnreachable))"

text \<open>
  \<open>__post_return_handleevent\<close>, which the host runs once it has lifted the
  result: it reads pointer and length back from the return area and frees the
  string buffer.
\<close>

definition post_handleevent :: "guest_state \<Rightarrow> u32 list \<Rightarrow> trap + guest_state" where
  "post_handleevent g res =
     (case res of
        [ret] \<Rightarrow>
          (if length (g_mem g) < unat ret + 8 then Inl TrapMemoryOutOfBounds
           else
             (let p = le32_decode (read_bytes (g_mem g) (unat ret) 4);
                  n = le32_decode (read_bytes (g_mem g) (unat ret + 4) 4)
              in Inr (cabi_free g (unat p) (unat n))))
      | _ \<Rightarrow> Inl TrapUnreachable)"

text \<open>An exported function: its declared type, its body, its post-return.\<close>

record guest_export =
  ge_type :: func_type
  ge_call :: guest_body
  ge_post :: "guest_state \<Rightarrow> u32 list \<Rightarrow> trap + guest_state"

definition rust_guest_body :: guest_body where
  "rust_guest_body = export_handleevent handleevent"

definition rust_handleevent_export :: guest_export where
  "rust_handleevent_export =
     \<lparr>ge_type = handleevent_type, ge_call = rust_guest_body, ge_post = post_handleevent\<rparr>"

section \<open>The guest's memory invariant\<close>

text \<open>
  Besides the allocator's invariant, the return area lies below the heap, so
  no buffer the allocator hands out overlaps it.
\<close>

definition rust_guest_wf :: "guest_state \<Rightarrow> bool" where
  "rust_guest_wf g \<longleftrightarrow> guest_wf g \<and> ret_area + 8 \<le> g_heap g"

section \<open>Host lowering, guest glue, host lifting\<close>

text \<open>
  The return area decodes to the pointer and length the glue stored; and for
  the passthrough guest the whole marshaling chain of one call (the host
  lowers the request, the glue runs \<open>handleevent\<close>, the host lifts the
  result) gives back the request, keeping the guest's memory invariant.
\<close>

lemma lift_request_store_ret:
  assumes ok: "ret_area + 8 \<le> length m"
  shows "lift_request (write_bytes m ret_area (le32_encode p @ le32_encode n)) (word_of_nat ret_area) =
         bind_res (lift_string (write_bytes m ret_area (le32_encode p @ le32_encode n)) p n)
                  (\<lambda>s. Inr \<lparr>uri = s\<rparr>)"
proof -
  let ?bs = "le32_encode p @ le32_encode n"
  have l: "ret_area + length ?bs \<le> length m" using ok by simp
  have r0: "read_bytes (write_bytes m ret_area ?bs) ret_area 4 = le32_encode p"
    using read_write_bytes_inside [OF l, of 0 4] by simp
  have r4: "read_bytes (write_bytes m ret_area ?bs) (ret_area + 4) 4 = le32_encode n"
    using read_write_bytes_inside [OF l, of 4 4] by simp
  have u: "unat (word_of_nat ret_area :: u32) = ret_area" by (simp add: ret_area_def)
  show ?thesis using ok r0 r4 u l by (simp add: lift_request_def ret_area_def)
qed

lemma rust_guest_roundtrip:
  assumes wf: "rust_guest_wf g" and valid: "utf8_valid (str_bytes (uri r))"
    and lo: "lower_request g r = Inr (g1, args)"
  shows "\<exists>g2 ret g3. rust_guest_body g1 args = Some (Inr (g2, [ret])) \<and>
           lift_request (g_mem g2) ret = Inr r \<and>
           post_handleevent g2 [ret] = Inr g3 \<and> rust_guest_wf g3 \<and> g_heap g3 = g_heap g"
proof -
  obtain p n where ls: "lower_string g (uri r) = Inr (g1, p, n)" and args: "args = [p, n]"
    using lo by (auto simp: lower_request_def bind_res_eq_Inr)
  have gwf: "guest_wf g" and ra: "ret_area + 8 \<le> g_heap g"
    using wf by (simp_all add: rust_guest_wf_def)
  note lw = lower_string_wf [OF gwf ls]
  have wf1: "guest_wf g1" and b1: "unat p + unat n \<le> length (g_mem g1)"
    and rd1: "read_bytes (g_mem g1) (unat p) (unat n) = str_bytes (uri r)"
    and at: "unat p = g_heap g \<or> unat n = 0" and h1: "g_heap g1 = g_heap g + unat n"
    using lw by auto
  have big: "ret_area + 8 \<le> length (g_mem g1)"
    using wf1 ra h1 by (simp add: guest_wf_def)
  let ?m2 = "write_bytes (g_mem g1) ret_area (le32_encode p @ le32_encode n)"
  let ?g2 = "g1\<lparr>g_mem := ?m2\<rparr>"
  have body: "rust_guest_body g1 args = Some (Inr (?g2, [word_of_nat ret_area]))"
    using b1 rd1 big args
    by (simp add: rust_guest_body_def export_handleevent_def handleevent_def store_ret_def Let_def)
  have len2: "length ?m2 = length (g_mem g1)" using big by simp
  have rd2: "read_bytes ?m2 (unat p) (unat n) = str_bytes (uri r)"
  proof (cases "unat n = 0")
    case True
    then show ?thesis using rd1 by (simp add: read_bytes_def)
  next
    case False
    with at have "unat p = g_heap g" by simp
    with ra have "ret_area + length (le32_encode p @ le32_encode n) \<le> unat p" by simp
    with big rd1 show ?thesis by (simp add: read_write_bytes_after)
  qed
  have "lift_string ?m2 p n = Inr (uri r)"
    using b1 len2 rd2 valid by (simp add: lift_string_def)
  then have lift: "lift_request ?m2 (word_of_nat ret_area) = Inr r"
    using lift_request_store_ret [OF big, of p n] by simp
  let ?g3 = "cabi_free ?g2 (unat p) (unat n)"
  have l8: "ret_area + length (le32_encode p @ le32_encode n) \<le> length (g_mem g1)"
    using big by simp
  have post: "post_handleevent ?g2 [word_of_nat ret_area] = Inr ?g3"
    using big len2 read_write_bytes_inside [OF l8, of 0 4] read_write_bytes_inside [OF l8, of 4 4]
    by (simp add: post_handleevent_def ret_area_def)
  have h3: "g_heap ?g3 = g_heap g"
    using at h1 by (auto simp: cabi_free_def)
  have "rust_guest_wf ?g3"
    using wf1 ra h1 len2 h3 by (auto simp: rust_guest_wf_def guest_wf_def cabi_free_def)
  with body lift post h3 show ?thesis
    by (intro exI [of _ ?g2] exI [of _ "word_of_nat ret_area"] exI [of _ ?g3]) simp
qed

text \<open>
  C13.  The export glue around lib.rs's \<open>handleevent\<close> returns the
  argument's own buffer: for in-bounds flat arguments it stores exactly the
  argument's pointer and length in the return area and returns the return
  area's address, copying nothing.
\<close>

theorem rust_guest_body_passthrough:
  assumes "unat p + unat n \<le> length (g_mem g)" and "ret_area + 8 \<le> length (g_mem g)"
  shows "rust_guest_body g [p, n] =
           Some (Inr (g\<lparr>g_mem := write_bytes (g_mem g) ret_area (le32_encode p @ le32_encode n)\<rparr>,
                      [word_of_nat ret_area]))"
  using assms
  by (simp add: rust_guest_body_def export_handleevent_def handleevent_def store_ret_def Let_def)

end
