(* ===== verification/Engine.thy ===== *)
theory Engine
  imports Guest
begin

text \<open>
  The Artifact Loader (spec 4.1) and the engine it works in: the error
  taxonomy of every stage (spec section 7), the content of an artifact file
  (a component binary, bytes that are not one, or a precompiled native
  image), the engine (\<open>wasmtime::Engine::default()\<close>, main.rs line 57), and
  the two loaders the runner calls, \<open>Component::from_file\<close> (line 62) and the
  \<open>unsafe\<close> \<open>Component::deserialize_file\<close> (line 60).  wasmtime is a library
  the runner only calls, so these definitions follow the spec's contracts.
  The two provenances of an artifact are two constructors, as spec 9 asks.
\<close>

section \<open>Errors of the stages\<close>

datatype load_error = NotFound | Malformed | CompileFailure | DeserializeFailure

datatype link_error = UnknownCapability string | DefinedTwice string string

datatype inst_error = UnresolvedImport string | StartTrap trap

datatype call_error =
    ExportNotFound string
  | SignatureMismatch string
  | Trap trap
  | CannotReenter
  | WrongStore

text \<open>The \<open>anyhow::Error\<close> every wasmtime call returns, by stage.\<close>

datatype wasm_error =
    LoadErr load_error
  | LinkErr link_error
  | InstErr inst_error
  | CallErr call_error
  | AbiErr abi_error

section \<open>Components and artifact files\<close>

text \<open>
  A component's content: the instances it imports (interface name and the
  functions it needs from it, with their types), the instances it exports
  (interface name and its functions), what its start-up code does (traps or
  not), the wasm features its code uses, and its initial memory (pages and
  the allocator's heap base).
\<close>

record component =
  c_imports :: "(string \<times> (string \<times> func_type) list) list"
  c_exports :: "(string \<times> (string \<times> guest_export) list) list"
  c_start :: "trap option"
  c_features :: "string list"
  c_mem_pages :: nat
  c_heap_base :: nat

text \<open>
  Structural validation of a component binary: names unique in every
  namespace, and the initial memory a valid 32-bit memory with the heap
  inside it.
\<close>

definition wf_component :: "component \<Rightarrow> bool" where
  "wf_component c \<longleftrightarrow>
     distinct (map fst (c_imports c)) \<and> distinct (map fst (c_exports c)) \<and>
     list_all (\<lambda>(_, fs). distinct (map fst fs)) (c_exports c) \<and>
     list_all (\<lambda>(_, fs). distinct (map fst fs)) (c_imports c) \<and>
     c_mem_pages c * page_size \<le> max_mem \<and> c_heap_base c \<le> c_mem_pages c * page_size"

record engine =
  eng_version :: string
  eng_features :: "string list"

text \<open>A precompiled image: the engine version that produced it and its code.\<close>

record image =
  img_version :: string
  img_code :: component

datatype artifact_file = Binary component | Garbage | Cwasm image

type_synonym filesystem = "path \<rightharpoonup> artifact_file"

datatype artifact = SourceCompiled component | Precompiled component

fun artifact_code :: "artifact \<Rightarrow> component" where
  "artifact_code (SourceCompiled c) = c"
| "artifact_code (Precompiled c) = c"

section \<open>The engine and the loaders\<close>

definition engine_default :: engine where
  "engine_default =
     \<lparr>eng_version = ''wasmtime'',
      eng_features = [''component-model'', ''multi-value'', ''bulk-memory'',
                      ''reference-types'', ''sign-extension'', ''mutable-global'',
                      ''nontrapping-float-to-int'', ''simd'']\<rparr>"

text \<open>Validation and compilation of a component binary against an engine.\<close>

definition compile_component :: "engine \<Rightarrow> component \<Rightarrow> wasm_error + component" where
  "compile_component e c =
     (if \<not> wf_component c then Inl (LoadErr Malformed)
      else if \<not> set (c_features c) \<subseteq> set (eng_features e) then Inl (LoadErr CompileFailure)
      else Inr c)"

definition component_from_file :: "engine \<Rightarrow> filesystem \<Rightarrow> path \<Rightarrow> wasm_error + artifact" where
  "component_from_file e fs p =
     (case fs p of
        None \<Rightarrow> Inl (LoadErr NotFound)
      | Some (Binary c) \<Rightarrow> bind_res (compile_component e c) (\<lambda>c'. Inr (SourceCompiled c'))
      | Some Garbage \<Rightarrow> Inl (LoadErr Malformed)
      | Some (Cwasm _) \<Rightarrow> Inl (LoadErr Malformed))"

text \<open>
  Deserialization checks only that the image is one and was produced by this
  engine's version; the code inside is trusted, not validated again.
\<close>

definition deserialize_file :: "engine \<Rightarrow> filesystem \<Rightarrow> path \<Rightarrow> wasm_error + artifact" where
  "deserialize_file e fs p =
     (case fs p of
        None \<Rightarrow> Inl (LoadErr NotFound)
      | Some (Cwasm img) \<Rightarrow>
          (if img_version img = eng_version e then Inr (Precompiled (img_code img))
           else Inl (LoadErr DeserializeFailure))
      | Some _ \<Rightarrow> Inl (LoadErr DeserializeFailure))"

text \<open>
  The producer of precompiled images (\<open>Engine::precompile_component\<close>, run
  ahead of time, outside the runner): it compiles as \<open>from_file\<close> does and
  stamps the image with its engine's version.
\<close>

definition precompile_component :: "engine \<Rightarrow> component \<Rightarrow> wasm_error + image" where
  "precompile_component e c =
     bind_res (compile_component e c) (\<lambda>c'. Inr \<lparr>img_version = eng_version e, img_code = c'\<rparr>)"

lemmas engine_defs [host_simps] = engine_default_def compile_component_def
  component_from_file_def deserialize_file_def precompile_component_def


section \<open>Properties of the loaders\<close>

text \<open>
  C14.  Deserialization is the unchecked trust boundary of spec 4.1: an
  image of this engine's version carrying a component that validation
  rejects is loaded without complaint, while the same component as a binary
  is refused as malformed.
\<close>

theorem deserialize_unvalidated:
  assumes "\<not> wf_component c"
    and "fs p = Some (Cwasm \<lparr>img_version = eng_version e, img_code = c\<rparr>)"
    and "fs q = Some (Binary c)"
  shows "deserialize_file e fs p = Inr (Precompiled c) \<and>
         component_from_file e fs q = Inl (LoadErr Malformed)"
  using assms by (simp add: deserialize_file_def component_from_file_def compile_component_def)

end
