(* ===== verification/Linker.thy ===== *)
theory Linker
  imports Engine
begin

text \<open>
  The Capability Linker (spec 4.2): \<open>Linker::new(&engine)\<close> and
  \<open>wasmtime_wasi::p2::add_to_linker_sync\<close> (main.rs lines 66-67).  A linker
  is a registry from interface name to the functions the host implements
  for it, with their types.  \<open>build_registry\<close> defines the requested
  interfaces one by one from a table of host implementations and fails on
  the first name the table lacks or the first function the linker already
  has (wasmtime refuses to shadow a definition); \<open>add_to_linker_sync\<close>
  requests the WASI 0.2 bundle, and on the fresh linker of main.rs it
  succeeds with exactly the bundle.  The bundle's content is modelled from the spec ("a minimal
  system interface", with no resource granted: that is the context's
  business, see Store): its interfaces and a representative set of their
  functions.
\<close>

record linker =
  lk_instances :: "string \<rightharpoonup> (string \<times> func_type) list"

definition linker_new :: linker where
  "linker_new = \<lparr>lk_instances = Map.empty\<rparr>"

text \<open>
  \<open>linker.instance(n)\<close> opens the interface \<open>n\<close> (creating it when it is new)
  and \<open>func_wrap(f, ...)\<close> adds one function to it.  A linker that does not
  allow shadowing (the default) refuses a function that is already
  defined in the interface: the error of \<open>define_funcs\<close>.
\<close>

fun define_funcs ::
  "string \<Rightarrow> (string \<times> func_type) list \<Rightarrow> (string \<times> func_type) list \<Rightarrow>
   wasm_error + (string \<times> func_type) list" where
  "define_funcs n acc [] = Inr acc"
| "define_funcs n acc ((f, t) # fs) =
     (if map_of acc f \<noteq> None then Inl (LinkErr (DefinedTwice n f))
      else define_funcs n (acc @ [(f, t)]) fs)"

definition define_instance ::
  "linker \<Rightarrow> string \<Rightarrow> (string \<times> func_type) list \<Rightarrow> wasm_error + linker" where
  "define_instance lk n fs =
     bind_res (define_funcs n (case lk_instances lk n of None \<Rightarrow> [] | Some acc \<Rightarrow> acc) fs)
       (\<lambda>acc'. Inr (lk\<lparr>lk_instances := (lk_instances lk)(n \<mapsto> acc')\<rparr>))"

text \<open>
  The registry of spec 4.2: the requested interfaces are defined one by one
  from a table of host implementations; the first name the table lacks, or
  the first definition the linker refuses, ends the registration.
\<close>

fun build_registry ::
  "(string \<times> (string \<times> func_type) list) list \<Rightarrow> string list \<Rightarrow> linker \<Rightarrow> wasm_error + linker" where
  "build_registry impls [] lk = Inr lk"
| "build_registry impls (n # ns) lk =
     (case map_of impls n of
        None \<Rightarrow> Inl (LinkErr (UnknownCapability n))
      | Some fs \<Rightarrow> bind_res (define_instance lk n fs) (build_registry impls ns))"

section \<open>The WASI 0.2 bundle\<close>

definition fn0 :: "wit_type list \<Rightarrow> func_type" where
  "fn0 rs = \<lparr>ft_params = [], ft_results = rs\<rparr>"

definition wasi_p2_sync :: "(string \<times> (string \<times> func_type) list) list" where
  "wasi_p2_sync =
     [(''wasi:io/error'',
        [(''[method]error.to-debug-string'',
          \<lparr>ft_params = [WBorrow ''error''], ft_results = [WString]\<rparr>)]),
      (''wasi:io/poll'',
        [(''poll'', \<lparr>ft_params = [WList (WBorrow ''pollable'')], ft_results = [WList WU32]\<rparr>)]),
      (''wasi:io/streams'',
        [(''[method]output-stream.blocking-write-and-flush'',
          \<lparr>ft_params = [WBorrow ''output-stream'', WList WU8],
           ft_results = [WResult None (Some (WOwn ''stream-error''))]\<rparr>),
         (''[method]input-stream.blocking-read'',
          \<lparr>ft_params = [WBorrow ''input-stream'', WU64],
           ft_results = [WResult (Some (WList WU8)) (Some (WOwn ''stream-error''))]\<rparr>)]),
      (''wasi:clocks/wall-clock'',
        [(''now'', fn0 [WRecord [(''seconds'', WU64), (''nanoseconds'', WU32)]])]),
      (''wasi:clocks/monotonic-clock'', [(''now'', fn0 [WU64])]),
      (''wasi:filesystem/types'',
        [(''[method]descriptor.get-type'',
          \<lparr>ft_params = [WBorrow ''descriptor''], ft_results = [WResult (Some WU8) (Some WU8)]\<rparr>)]),
      (''wasi:filesystem/preopens'',
        [(''get-directories'', fn0 [WList (WTuple [WOwn ''descriptor'', WString])])]),
      (''wasi:random/random'',
        [(''get-random-bytes'', \<lparr>ft_params = [WU64], ft_results = [WList WU8]\<rparr>),
         (''get-random-u64'', fn0 [WU64])]),
      (''wasi:cli/environment'',
        [(''get-environment'', fn0 [WList (WTuple [WString, WString])]),
         (''get-arguments'', fn0 [WList WString]),
         (''initial-cwd'', fn0 [WOption WString])]),
      (''wasi:cli/exit'',
        [(''exit'', \<lparr>ft_params = [WResult None None], ft_results = []\<rparr>)]),
      (''wasi:cli/stdin'', [(''get-stdin'', fn0 [WOwn ''input-stream''])]),
      (''wasi:cli/stdout'', [(''get-stdout'', fn0 [WOwn ''output-stream''])]),
      (''wasi:cli/stderr'', [(''get-stderr'', fn0 [WOwn ''output-stream''])])]"

definition add_to_linker_sync :: "linker \<Rightarrow> wasm_error + linker" where
  "add_to_linker_sync lk = build_registry wasi_p2_sync (map fst wasi_p2_sync) lk"

lemmas linker_defs [host_simps] = linker_new_def define_instance_def add_to_linker_sync_def

section \<open>Registering the bundle on a fresh linker\<close>

lemma lk_instances_linker_new [simp]: "lk_instances linker_new k = None"
  by (simp add: linker_new_def)

lemma define_funcs_distinct:
  "distinct (map fst (acc @ fs)) \<Longrightarrow> define_funcs n acc fs = Inr (acc @ fs)"
  by (induction n acc fs rule: define_funcs.induct) (auto simp: map_of_eq_None_iff)

lemma build_registry_fresh:
  assumes "distinct ns" and "\<forall>n \<in> set ns. lk_instances lk n = None"
    and "\<forall>n \<in> set ns. \<exists>fs. map_of impls n = Some fs \<and> distinct (map fst fs)"
  shows "build_registry impls ns lk =
           Inr (lk\<lparr>lk_instances := (\<lambda>k. if k \<in> set ns then map_of impls k else lk_instances lk k)\<rparr>)"
  using assms
proof (induction ns arbitrary: lk)
  case Nil
  then show ?case by simp
next
  case (Cons n ns)
  then obtain fs where fs: "map_of impls n = Some fs" and d: "distinct (map fst fs)" by auto
  let ?lk = "lk\<lparr>lk_instances := (lk_instances lk)(n \<mapsto> fs)\<rparr>"
  have "define_instance lk n fs = Inr ?lk"
    using Cons.prems(2) d by (simp add: define_instance_def define_funcs_distinct)
  moreover have "build_registry impls ns ?lk =
      Inr (?lk\<lparr>lk_instances := (\<lambda>k. if k \<in> set ns then map_of impls k else lk_instances ?lk k)\<rparr>)"
    using Cons.prems by (intro Cons.IH) auto
  ultimately show ?case
    using fs by (auto simp: fun_eq_iff)
qed

text \<open>
  On the fresh linker of line 66 the bundle's registration succeeds (the
  \<open>expect\<close> of line 67 never fires) and yields exactly the bundle: its
  interface names are distinct, and so are the function names within each.
\<close>

lemma add_to_linker_sync_new:
  "add_to_linker_sync linker_new = Inr \<lparr>lk_instances = map_of wasi_p2_sync\<rparr>"
proof -
  let ?f = "\<lambda>k. if k \<in> set (map fst wasi_p2_sync) then map_of wasi_p2_sync k
               else lk_instances linker_new k"
  have "\<forall>n \<in> set (map fst wasi_p2_sync). \<exists>fs. map_of wasi_p2_sync n = Some fs \<and> distinct (map fst fs)"
    by (simp add: wasi_p2_sync_def fn0_def)
  moreover have "distinct (map fst wasi_p2_sync)"
    by (simp add: wasi_p2_sync_def)
  ultimately have "add_to_linker_sync linker_new = Inr (linker_new\<lparr>lk_instances := ?f\<rparr>)"
    unfolding add_to_linker_sync_def by (intro build_registry_fresh) auto
  moreover have "?f = map_of wasi_p2_sync"
    by (auto simp: fun_eq_iff map_of_eq_None_iff [symmetric])
  ultimately show ?thesis by (simp add: linker_new_def)
qed

section \<open>Definitions are never shadowed\<close>

lemma define_funcs_Inr_subset:
  "define_funcs n acc fs = Inr acc' \<Longrightarrow> set acc \<subseteq> set acc' \<and> set fs \<subseteq> set acc'"
  by (induction n acc fs rule: define_funcs.induct) (auto split: if_splits)

lemma define_instance_keeps:
  assumes "define_instance lk m gs = Inr lk2" and "lk_instances lk n = Some acc"
  shows "\<exists>acc2. lk_instances lk2 n = Some acc2 \<and> set acc \<subseteq> set acc2"
  using assms define_funcs_Inr_subset
  by (fastforce simp: define_instance_def bind_res_eq_Inr split: if_splits)

lemma define_instance_defines:
  assumes "define_instance lk n fs = Inr lk2"
  shows "\<exists>acc2. lk_instances lk2 n = Some acc2 \<and> set fs \<subseteq> set acc2"
  using assms define_funcs_Inr_subset
  by (fastforce simp: define_instance_def bind_res_eq_Inr)

lemma build_registry_keeps:
  "build_registry impls ns lk = Inr lk' \<Longrightarrow> lk_instances lk n = Some acc \<Longrightarrow>
   \<exists>acc'. lk_instances lk' n = Some acc' \<and> set acc \<subseteq> set acc'"
proof (induction ns arbitrary: lk acc)
  case Nil
  then show ?case by auto
next
  case (Cons m ns)
  then obtain fs lk2 where "define_instance lk m fs = Inr lk2" and "build_registry impls ns lk2 = Inr lk'"
    by (auto simp: bind_res_eq_Inr split: option.splits)
  moreover obtain acc2 where "lk_instances lk2 n = Some acc2" and "set acc \<subseteq> set acc2"
    using define_instance_keeps [OF calculation(1) Cons.prems(2)] by blast
  ultimately show ?case
    using Cons.IH by blast
qed

lemma build_registry_defines:
  "build_registry impls ns lk = Inr lk' \<Longrightarrow> n \<in> set ns \<Longrightarrow> map_of impls n = Some fs \<Longrightarrow>
   \<exists>acc'. lk_instances lk' n = Some acc' \<and> set fs \<subseteq> set acc'"
proof (induction ns arbitrary: lk)
  case Nil
  then show ?case by simp
next
  case (Cons m ns)
  then obtain gs lk2 where gs: "map_of impls m = Some gs" and d: "define_instance lk m gs = Inr lk2"
    and b: "build_registry impls ns lk2 = Inr lk'"
    by (auto simp: bind_res_eq_Inr split: option.splits)
  show ?case
  proof (cases "n = m")
    case True
    then have "fs = gs" using gs Cons.prems(3) by simp
    obtain acc2 where "lk_instances lk2 m = Some acc2" and "set gs \<subseteq> set acc2"
      using define_instance_defines [OF d] by blast
    then show ?thesis using build_registry_keeps [OF b] True \<open>fs = gs\<close> by blast
  next
    case False
    then show ?thesis using Cons b by auto
  qed
qed

lemma define_instance_again:
  assumes "lk_instances lk n = Some acc" and "(f, t) \<in> set acc"
  shows "define_instance lk n ((f, t) # fs) = Inl (LinkErr (DefinedTwice n f))"
proof -
  have "map_of acc f \<noteq> None" using weak_map_of_SomeI [OF assms(2)] by auto
  then show ?thesis using assms(1) by (simp add: define_instance_def)
qed

text \<open>
  C26.  The WASI bundle can be registered once per linker: after
  \<open>add_to_linker_sync\<close> (main.rs line 67) has succeeded, registering it
  again on the resulting linker fails on the bundle's first function,
  because wasmtime's linker does not let a definition be shadowed.
\<close>

theorem add_to_linker_sync_twice:
  assumes "add_to_linker_sync lk = Inr lk'"
  shows "add_to_linker_sync lk' =
           Inl (LinkErr (DefinedTwice ''wasi:io/error'' ''[method]error.to-debug-string''))"
proof -
  define io where "io = [(''[method]error.to-debug-string'',
          \<lparr>ft_params = [WBorrow ''error''], ft_results = [WString]\<rparr>)]"
  have names: "map fst wasi_p2_sync = ''wasi:io/error'' # tl (map fst wasi_p2_sync)"
    by (simp add: wasi_p2_sync_def)
  have io: "map_of wasi_p2_sync ''wasi:io/error'' = Some io"
    by (simp add: wasi_p2_sync_def io_def)
  have mem: "''wasi:io/error'' \<in> set (map fst wasi_p2_sync)"
    by (subst names) simp
  obtain acc where acc: "lk_instances lk' ''wasi:io/error'' = Some acc" and sub: "set io \<subseteq> set acc"
    using build_registry_defines [OF assms [unfolded add_to_linker_sync_def] mem io] by blast
  have "define_instance lk' ''wasi:io/error'' io =
          Inl (LinkErr (DefinedTwice ''wasi:io/error'' ''[method]error.to-debug-string''))"
    using define_instance_again [OF acc] sub by (simp add: io_def)
  then show ?thesis
    unfolding add_to_linker_sync_def by (subst names) (simp add: io)
qed

end
