(* ===== verification/Store.thy ===== *)
theory Store
  imports Engine
begin

text \<open>
  The execution context (spec 3) and the store that owns the instances:
  \<open>struct MyState { ctx: WasiCtx, table: ResourceTable }\<close> and its
  \<open>WasiView\<close> implementation (main.rs lines 12-24), the context
  \<open>WasiCtxBuilder::new().build()\<close> and the table \<open>ResourceTable::new()\<close>
  the runner builds (lines 70-72), and \<open>Store::new(&engine, state)\<close>
  (line 73).  A store holds its data and the state of every instance
  created in it: code, guest memory and allocator, and whether a trap has
  left it unusable.
\<close>

section \<open>The WASI context and the resource table\<close>

record wasi_ctx =
  wc_env :: "(string \<times> string) list"
  wc_args :: "string list"
  wc_preopens :: "(path \<times> string) list"
  wc_inherit_stdin :: bool
  wc_inherit_stdout :: bool
  wc_inherit_stderr :: bool
  wc_allow_network :: bool

text \<open>
  \<open>WasiCtxBuilder::new()\<close>: no environment, no arguments, no preopened
  directory, no inherited standard stream, no network; \<open>build()\<close> turns
  the builder's settings into the context.
\<close>

definition wasi_ctx_builder_new :: wasi_ctx where
  "wasi_ctx_builder_new =
     \<lparr>wc_env = [], wc_args = [], wc_preopens = [], wc_inherit_stdin = False,
      wc_inherit_stdout = False, wc_inherit_stderr = False, wc_allow_network = False\<rparr>"

definition wasi_ctx_build :: "wasi_ctx \<Rightarrow> wasi_ctx" where
  "wasi_ctx_build b = b"

record resource_table =
  rt_next :: nat
  rt_entries :: "nat \<rightharpoonup> string"

definition resource_table_new :: resource_table where
  "resource_table_new = \<lparr>rt_next = 0, rt_entries = Map.empty\<rparr>"

section \<open>MyState and its WASI view\<close>

record my_state =
  ctx :: wasi_ctx
  table :: resource_table

record wasi_ctx_view =
  view_ctx :: wasi_ctx
  view_table :: resource_table

text \<open>\<open>impl WasiView for MyState { fn ctx(&mut self) -> WasiCtxView ... }\<close>\<close>

definition wasi_view_ctx :: "my_state \<Rightarrow> wasi_ctx_view" where
  "wasi_view_ctx s = \<lparr>view_ctx = ctx s, view_table = table s\<rparr>"

text \<open>Lines 70-72 of main.rs.\<close>

definition runner_state :: my_state where
  "runner_state =
     \<lparr>ctx = wasi_ctx_build wasi_ctx_builder_new, table = resource_table_new\<rparr>"

section \<open>The store\<close>

record inst_state =
  is_code :: component
  is_guest :: guest_state
  is_poisoned :: bool

record 'd store =
  st_data :: 'd
  st_instances :: "inst_state list"

definition store_new :: "engine \<Rightarrow> 'd \<Rightarrow> 'd store" where
  "store_new e d = \<lparr>st_data = d, st_instances = []\<rparr>"

lemmas store_defs [host_simps] = wasi_ctx_builder_new_def wasi_ctx_build_def
  resource_table_new_def wasi_view_ctx_def runner_state_def store_new_def


end
