(* ===== verification/Instance.thy ===== *)
theory Instance
  imports Linker Store
begin

text \<open>
  The Instance Builder (spec 4.3) and the Typed Invoker (spec 4.4) as the
  bindings generated by \<open>bindgen!\<close> drive them: \<open>HandlerWorld::instantiate\<close>
  (main.rs line 76) resolves every import against the linker (fail-fast, the
  first unresolved import is reported), looks up and type-checks the one
  export \<open>test:test/handler-interface#handleevent\<close> once, obtaining a typed
  handle, and then runs the component's start-up code in a fresh instance of
  the store.  \<open>call_handleevent\<close> (line 84) lowers the request into the
  instance's memory, runs the guest function, lifts the result, and runs the
  post-return function.  A guest trap makes the instance unusable; a guest
  that never returns makes the call not return (\<open>None\<close>).  wasmtime is
  modelled from the spec and the component model.
\<close>

section \<open>Instantiation\<close>

definition import_satisfied :: "linker \<Rightarrow> string \<times> (string \<times> func_type) list \<Rightarrow> bool" where
  "import_satisfied lk imp =
     (case lk_instances lk (fst imp) of
        None \<Rightarrow> False
      | Some provided \<Rightarrow> list_all (\<lambda>(f, t). map_of provided f = Some t) (snd imp))"

fun resolve_imports :: "linker \<Rightarrow> (string \<times> (string \<times> func_type) list) list \<Rightarrow> wasm_error + unit" where
  "resolve_imports lk [] = Inr ()"
| "resolve_imports lk (imp # imps) =
     (if import_satisfied lk imp then resolve_imports lk imps
      else Inl (InstErr (UnresolvedImport (fst imp))))"

text \<open>The typed handle: the instance and the bound export.\<close>

record handler_world =
  hw_instance :: nat
  hw_handleevent :: guest_export

definition lookup_handleevent :: "component \<Rightarrow> wasm_error + guest_export" where
  "lookup_handleevent c =
     (case map_of (c_exports c) handler_interface_name of
        None \<Rightarrow> Inl (CallErr (ExportNotFound handler_interface_name))
      | Some fs \<Rightarrow>
          (case map_of fs handleevent_name of
             None \<Rightarrow> Inl (CallErr (ExportNotFound handleevent_name))
           | Some ge \<Rightarrow>
               if ge_type ge = handleevent_type then Inr ge
               else Inl (CallErr (SignatureMismatch handleevent_name))))"

definition new_instance :: "component \<Rightarrow> inst_state" where
  "new_instance c =
     \<lparr>is_code = c,
      is_guest = \<lparr>g_mem = replicate (c_mem_pages c * page_size) 0, g_heap = c_heap_base c\<rparr>,
      is_poisoned = False\<rparr>"

definition instantiate :: "'d store \<Rightarrow> artifact \<Rightarrow> linker \<Rightarrow> wasm_error + 'd store \<times> handler_world" where
  "instantiate st a lk =
     (let c = artifact_code a in
      bind_res (resolve_imports lk (c_imports c)) (\<lambda>_.
      bind_res (lookup_handleevent c) (\<lambda>ge.
        case c_start c of
          Some t \<Rightarrow> Inl (InstErr (StartTrap t))
        | None \<Rightarrow>
            Inr (st\<lparr>st_instances := st_instances st @ [new_instance c]\<rparr>,
                 \<lparr>hw_instance = length (st_instances st), hw_handleevent = ge\<rparr>))))"

section \<open>The typed call\<close>

definition set_guest :: "'d store \<Rightarrow> nat \<Rightarrow> guest_state \<Rightarrow> 'd store" where
  "set_guest st i g =
     st\<lparr>st_instances := (st_instances st)[i := (st_instances st ! i)\<lparr>is_guest := g\<rparr>]\<rparr>"

definition poison :: "'d store \<Rightarrow> nat \<Rightarrow> 'd store" where
  "poison st i =
     st\<lparr>st_instances := (st_instances st)[i := (st_instances st ! i)\<lparr>is_poisoned := True\<rparr>]\<rparr>"

definition call_handleevent ::
  "handler_world \<Rightarrow> 'd store \<Rightarrow> request \<Rightarrow> ((wasm_error + request) \<times> 'd store) option" where
  "call_handleevent h st r =
     (let i = hw_instance h; ge = hw_handleevent h in
      if length (st_instances st) \<le> i then Some (Inl (CallErr WrongStore), st)
      else if is_poisoned (st_instances st ! i) then Some (Inl (CallErr CannotReenter), st)
      else
        (case lower_request (is_guest (st_instances st ! i)) r of
           Inl (AbiTrap t) \<Rightarrow> Some (Inl (CallErr (Trap t)), poison st i)
         | Inl e \<Rightarrow> Some (Inl (AbiErr e), st)
         | Inr (g1, args) \<Rightarrow>
             (case ge_call ge g1 args of
                None \<Rightarrow> None
              | Some (Inl t) \<Rightarrow> Some (Inl (CallErr (Trap t)), poison (set_guest st i g1) i)
              | Some (Inr (g2, res)) \<Rightarrow>
                  (case res of
                     [ret] \<Rightarrow>
                       (case lift_request (g_mem g2) ret of
                          Inl e \<Rightarrow> Some (Inl (AbiErr e), poison (set_guest st i g2) i)
                        | Inr resp \<Rightarrow>
                            (case ge_post ge g2 res of
                               Inl t \<Rightarrow> Some (Inl (CallErr (Trap t)), poison (set_guest st i g2) i)
                             | Inr g3 \<Rightarrow> Some (Inr resp, set_guest st i g3)))
                   | _ \<Rightarrow> Some (Inl (CallErr (SignatureMismatch handleevent_name)),
                              poison (set_guest st i g2) i)))))"

text \<open>
  Repeated calls through one typed handle, each from the store the previous
  one left.
\<close>

inductive call_seq :: "handler_world \<Rightarrow> 'd store \<Rightarrow> 'd store \<Rightarrow> bool" for h where
  seq_refl: "call_seq h st st"
| seq_step: "call_handleevent h st r = Some (res, st1) \<Longrightarrow> call_seq h st1 st2 \<Longrightarrow> call_seq h st st2"

lemmas instance_defs [host_simps] = import_satisfied_def lookup_handleevent_def
  new_instance_def instantiate_def set_guest_def poison_def

section \<open>Properties of instantiation and of the call\<close>

text \<open>
  Import resolution reports exactly the first import the linker cannot
  satisfy by name and signature; a successful instantiation has resolved
  every import, bound a well-typed export and appended one fresh instance.
  A call never touches the store's data nor any other instance, never
  un-poisons an instance, refuses a poisoned one, poisons on a trap, and for
  the passthrough guest returns the request with the guest's memory
  invariant and heap restored.
\<close>

text \<open>
  Import resolution fails fast: it reports exactly the first import,
  in declaration order, that the linker does not provide by name and
  signature, and succeeds when there is none.
\<close>

lemma resolve_imports_find:
  "resolve_imports lk imps =
     (case find (\<lambda>imp. \<not> import_satisfied lk imp) imps of
        None \<Rightarrow> Inr ()
      | Some imp \<Rightarrow> Inl (InstErr (UnresolvedImport (fst imp))))"
  by (induction imps) auto

lemma resolve_imports_Inr_iff:
  "resolve_imports lk imps = Inr u \<longleftrightarrow> list_all (import_satisfied lk) imps"
  by (induction imps) auto

text \<open>
  C16.  A successful instantiation has resolved every import, bound an
  export of the expected type, run a start-up that did not trap, and added
  exactly one fresh instance to the store, leaving its data alone.
\<close>

theorem instantiate_Inr:
  assumes "instantiate st a lk = Inr (st', h)"
  shows "list_all (import_satisfied lk) (c_imports (artifact_code a)) \<and>
         lookup_handleevent (artifact_code a) = Inr (hw_handleevent h) \<and>
         c_start (artifact_code a) = None \<and>
         st_instances st' = st_instances st @ [new_instance (artifact_code a)] \<and>
         hw_instance h = length (st_instances st) \<and> st_data st' = st_data st"
  using assms
  by (auto simp: instantiate_def Let_def bind_res_eq_Inr resolve_imports_Inr_iff
           split: option.splits)

lemma set_guest_simps [simp]:
  "st_data (set_guest st i g) = st_data st"
  "length (st_instances (set_guest st i g)) = length (st_instances st)"
  "i < length (st_instances st) \<Longrightarrow> is_guest (st_instances (set_guest st i g) ! i) = g"
  "j < length (st_instances st) \<Longrightarrow>
   is_poisoned (st_instances (set_guest st i g) ! j) = is_poisoned (st_instances st ! j)"
  "j \<noteq> i \<Longrightarrow> st_instances (set_guest st i g) ! j = st_instances st ! j"
  by (cases "i = j"; auto simp: set_guest_def nth_list_update list_update_beyond)+

lemma poison_simps [simp]:
  "st_data (poison st i) = st_data st"
  "length (st_instances (poison st i)) = length (st_instances st)"
  "i < length (st_instances st) \<Longrightarrow> is_poisoned (st_instances (poison st i) ! i)"
  "j < length (st_instances st) \<Longrightarrow> is_poisoned (st_instances st ! j) \<Longrightarrow>
   is_poisoned (st_instances (poison st i) ! j)"
  "j \<noteq> i \<Longrightarrow> st_instances (poison st i) ! j = st_instances st ! j"
  by (cases "i = j"; auto simp: poison_def nth_list_update list_update_beyond)+

lemma call_handleevent_cases:
  assumes "call_handleevent h st r = Some (res, st')"
  shows "st' = st \<or> (\<exists>g. st' = set_guest st (hw_instance h) g) \<or>
         (\<exists>g. st' = poison (set_guest st (hw_instance h) g) (hw_instance h)) \<or>
         st' = poison st (hw_instance h)"
  using assms
  by (auto simp: call_handleevent_def Let_def
           split: if_splits sum.splits prod.splits option.splits list.splits abi_error.splits)

text \<open>
  C17.  A call, whatever it returns, changes neither the store's data (the
  execution context) nor the number of instances nor any instance other
  than the called one, and never makes a poisoned instance usable again.
\<close>

theorem call_handleevent_frame:
  assumes "call_handleevent h st r = Some (res, st')"
  shows "st_data st' = st_data st \<and> length (st_instances st') = length (st_instances st) \<and>
         (\<forall>j. j \<noteq> hw_instance h \<longrightarrow> st_instances st' ! j = st_instances st ! j) \<and>
         (\<forall>j < length (st_instances st).
            is_poisoned (st_instances st ! j) \<longrightarrow> is_poisoned (st_instances st' ! j))"
  using call_handleevent_cases [OF assms] by auto

lemma call_handleevent_poisoned:
  "hw_instance h < length (st_instances st) \<Longrightarrow> is_poisoned (st_instances st ! hw_instance h) \<Longrightarrow>
   call_handleevent h st r = Some (Inl (CallErr CannotReenter), st)"
  by (simp add: call_handleevent_def Let_def)

text \<open>
  C18.  A call that reports a guest trap leaves the called instance poisoned.
\<close>

theorem call_handleevent_trap:
  assumes "call_handleevent h st r = Some (Inl (CallErr (Trap t)), st')"
  shows "is_poisoned (st_instances st' ! hw_instance h)"
  using assms
  by (auto simp: call_handleevent_def Let_def
           split: if_splits sum.splits prod.splits option.splits list.splits abi_error.splits)

lemma call_handleevent_rust:
  assumes i: "hw_instance h < length (st_instances st)"
    and live: "\<not> is_poisoned (st_instances st ! hw_instance h)"
    and ge: "hw_handleevent h = rust_handleevent_export"
    and wf: "rust_guest_wf (is_guest (st_instances st ! hw_instance h))"
    and valid: "utf8_valid (str_bytes (uri r))" and short: "length (uri r) \<le> max_string_bytes"
    and fits: "g_heap (is_guest (st_instances st ! hw_instance h)) + length (uri r) \<le> max_mem"
  shows "\<exists>g3. call_handleevent h st r = Some (Inr r, set_guest st (hw_instance h) g3) \<and>
              rust_guest_wf g3 \<and> g_heap g3 = g_heap (is_guest (st_instances st ! hw_instance h))"
proof -
  let ?g = "is_guest (st_instances st ! hw_instance h)"
  have gwf: "guest_wf ?g" using wf by (simp add: rust_guest_wf_def)
  obtain g1 p n where ls: "lower_string ?g (uri r) = Inr (g1, p, n)"
    using lower_string_succeeds [OF gwf short fits] by auto
  then have lo: "lower_request ?g r = Inr (g1, [p, n])" by (simp add: lower_request_def)
  obtain g2 ret g3 where body: "rust_guest_body g1 [p, n] = Some (Inr (g2, [ret]))"
    and lift: "lift_request (g_mem g2) ret = Inr r"
    and post: "post_handleevent g2 [ret] = Inr g3" and wf3: "rust_guest_wf g3"
    and h3: "g_heap g3 = g_heap ?g"
    using rust_guest_roundtrip [OF wf valid lo] by blast
  have "call_handleevent h st r = Some (Inr r, set_guest st (hw_instance h) g3)"
    using i live lo body lift post ge
    by (simp add: call_handleevent_def Let_def rust_handleevent_export_def)
  with wf3 h3 show ?thesis by blast
qed

lemma is_poisoned_new_instance [simp]: "\<not> is_poisoned (new_instance c)"
  by (simp add: new_instance_def)

lemma resolve_imports_first_unsatisfied:
  "find (\<lambda>imp. \<not> import_satisfied lk imp) imps = Some imp \<Longrightarrow>
   resolve_imports lk imps = Inl (InstErr (UnresolvedImport (fst imp)))"
  by (induction imps) (auto split: if_splits)


text \<open>
  C12.  Calling the passthrough guest twice with the same request through one
  live instance returns the request both times and leaves the store's data
  untouched (spec 8, idempotence).
\<close>

theorem call_handleevent_idempotent:
  assumes i: "hw_instance h < length (st_instances st)"
    and live: "\<not> is_poisoned (st_instances st ! hw_instance h)"
    and ge: "hw_handleevent h = rust_handleevent_export"
    and wf: "rust_guest_wf (is_guest (st_instances st ! hw_instance h))"
    and valid: "utf8_valid (str_bytes (uri r))" and short: "length (uri r) \<le> max_string_bytes"
    and fits: "g_heap (is_guest (st_instances st ! hw_instance h)) + length (uri r) \<le> max_mem"
  shows "\<exists>st1 st2. call_handleevent h st r = Some (Inr r, st1) \<and>
                   call_handleevent h st1 r = Some (Inr r, st2) \<and>
                   st_data st1 = st_data st \<and> st_data st2 = st_data st"
proof -
  obtain g3 where c1: "call_handleevent h st r = Some (Inr r, set_guest st (hw_instance h) g3)"
    and wf3: "rust_guest_wf g3" and h3: "g_heap g3 = g_heap (is_guest (st_instances st ! hw_instance h))"
    using call_handleevent_rust [OF i live ge wf valid short fits] by blast
  let ?st1 = "set_guest st (hw_instance h) g3"
  have i1: "hw_instance h < length (st_instances ?st1)" using i by simp
  have live1: "\<not> is_poisoned (st_instances ?st1 ! hw_instance h)" using i live by simp
  have wf1: "rust_guest_wf (is_guest (st_instances ?st1 ! hw_instance h))" using i wf3 by simp
  have fits1: "g_heap (is_guest (st_instances ?st1 ! hw_instance h)) + length (uri r) \<le> max_mem"
    using i h3 fits by simp
  obtain g4 where c2: "call_handleevent h ?st1 r = Some (Inr r, set_guest ?st1 (hw_instance h) g4)"
    using call_handleevent_rust [OF i1 live1 ge wf1 valid short fits1] by blast
  from c1 c2 show ?thesis by auto
qed

text \<open>
  C19.  Once an instance is poisoned, no sequence of calls changes the store,
  and every further call is refused with \<open>CannotReenter\<close>.
\<close>

theorem call_seq_poisoned:
  assumes "call_seq h st st'" and "hw_instance h < length (st_instances st)"
    and "is_poisoned (st_instances st ! hw_instance h)"
  shows "st' = st \<and> call_handleevent h st' r = Some (Inl (CallErr CannotReenter), st')"
  using assms
proof (induction rule: call_seq.induct)
  case (seq_refl st)
  then show ?case by (simp add: call_handleevent_poisoned)
next
  case (seq_step st r' res st1 st2)
  then have "st1 = st" by (simp add: call_handleevent_poisoned)
  with seq_step show ?case by (simp add: call_handleevent_poisoned)
qed


text \<open>
  C15.  Instantiation (main.rs lines 76-77) fails fast on imports: when an
  import is not provided by the linker with its signature, it fails naming
  the first such import in declaration order, before any export is looked
  up or any start-up code runs.
\<close>

theorem instantiate_unresolved:
  assumes "find (\<lambda>imp. \<not> import_satisfied lk imp) (c_imports (artifact_code a)) = Some imp"
  shows "instantiate st a lk = Inl (InstErr (UnresolvedImport (fst imp)))"
  using assms by (simp add: instantiate_def Let_def resolve_imports_find)

text \<open>
  C20.  A 32-bit guest memory bounds what a call can pass: when the
  request's string cannot be allocated below 4 GiB, the guest's allocator
  traps, the call reports the trap and the instance is poisoned; no wrapped
  address is ever handed to the guest.
\<close>

theorem call_handleevent_no_memory:
  assumes "hw_instance h < length (st_instances st)"
    and "\<not> is_poisoned (st_instances st ! hw_instance h)"
    and wf: "guest_wf (is_guest (st_instances st ! hw_instance h))"
    and "length (uri r) \<le> max_string_bytes"
    and over: "max_mem < g_heap (is_guest (st_instances st ! hw_instance h)) + length (uri r)"
  shows "call_handleevent h st r = Some (Inl (CallErr (Trap TrapUnreachable)), poison st (hw_instance h))"
proof -
  have "cabi_realloc (is_guest (st_instances st ! hw_instance h)) (length (uri r)) = Inl TrapUnreachable"
    using cabi_realloc_exhausted [OF wf over] .
  then show ?thesis
    using assms by (simp add: call_handleevent_def lower_request_def lower_string_def Let_def)
qed



text \<open>
  C25.  A successful call to the passthrough guest does not leak guest
  memory: the post-return function frees the buffer, so the instance's
  heap pointer is back where it was, its allocator invariant holds, and it
  stays usable for the next call.
\<close>

theorem call_handleevent_no_leak:
  assumes "hw_instance h < length (st_instances st)"
    and "\<not> is_poisoned (st_instances st ! hw_instance h)"
    and "hw_handleevent h = rust_handleevent_export"
    and "rust_guest_wf (is_guest (st_instances st ! hw_instance h))"
    and "utf8_valid (str_bytes (uri r))" and "length (uri r) \<le> max_string_bytes"
    and "g_heap (is_guest (st_instances st ! hw_instance h)) + length (uri r) \<le> max_mem"
  shows "\<exists>st'. call_handleevent h st r = Some (Inr r, st') \<and>
           g_heap (is_guest (st_instances st' ! hw_instance h)) =
             g_heap (is_guest (st_instances st ! hw_instance h)) \<and>
           rust_guest_wf (is_guest (st_instances st' ! hw_instance h)) \<and>
           \<not> is_poisoned (st_instances st' ! hw_instance h)"
proof -
  obtain g3 where "call_handleevent h st r = Some (Inr r, set_guest st (hw_instance h) g3)"
    and "rust_guest_wf g3" and "g_heap g3 = g_heap (is_guest (st_instances st ! hw_instance h))"
    using call_handleevent_rust [OF assms] by blast
  with assms(1,2) show ?thesis by auto
qed



end
