(* ===== verification/Cli.thy ===== *)
theory Cli
  imports Prelude
begin

text \<open>
  The command-line front of the runner (src/runner/src/main.rs, lines 27-54):
  the argument-count check with its usage line, the \<open>--aot\<close> flag, the
  load-mode file extension, and the resolution of the component family
  (\<open>rs\<close> or \<open>js\<close>) to a file path under \<open>CARGO_MANIFEST_DIR\<close>.  The
  diagnostic lines are the exact texts the code prints.
\<close>

section \<open>Arguments\<close>

text \<open>\<open>eprintln!("Usage: {} <rs|js> [--aot]", args[0])\<close>\<close>

definition usage_line :: "string \<Rightarrow> string" where
  "usage_line prog = ''Usage: '' @ prog @ '' <rs|js> [--aot]''"

text \<open>
  \<open>args.iter().any(|a| a == "--aot")\<close>: every argument is inspected,
  the program name and the selector position included.
\<close>

definition use_aot :: "string list \<Rightarrow> bool" where
  "use_aot args = list_ex (\<lambda>a. a = ''--aot'') args"

text \<open>\<open>let ext = if use_aot { "cwasm" } else { "wasm" }\<close>\<close>

definition ext :: "bool \<Rightarrow> string" where
  "ext aot = (if aot then ''cwasm'' else ''wasm'')"

section \<open>Component path\<close>

text \<open>
  The \<open>match component_type.as_str()\<close> of lines 39-52: the two families and
  their paths relative to the runner's manifest directory; any other selector
  is the error arm (\<open>None\<close>).
\<close>

definition component_path :: "string \<Rightarrow> string \<Rightarrow> bool \<Rightarrow> path option" where
  "component_path manifest component_type aot =
     (if component_type = ''js'' then
        Some (manifest @ ''/../component/js/handler.'' @ ext aot)
      else if component_type = ''rs'' then
        Some (manifest @ ''/../component/rust/target/wasm32-wasip1/release/handler_rs.'' @ ext aot)
      else None)"

definition invalid_type_line :: "string \<Rightarrow> string" where
  "invalid_type_line component_type =
     ''Invalid component type: '' @ component_type @ ''. Use 'rs' or 'js'' @ [CHR 0x27]"

text \<open>\<open>println!("Loading {} component{} from: {}", ...)\<close>\<close>

definition loading_line :: "string \<Rightarrow> bool \<Rightarrow> path \<Rightarrow> string" where
  "loading_line component_type aot p =
     ''Loading '' @ component_type @ '' component'' @ (if aot then '' (AOT)'' else '''') @
     '' from: '' @ p"

lemmas cli_defs [host_simps] = usage_line_def use_aot_def ext_def component_path_def
  invalid_type_line_def loading_line_def

section \<open>Properties of path resolution\<close>

lemma component_path_Some_iff:
  "(\<exists>p. component_path m t aot = Some p) \<longleftrightarrow> t = ''rs'' \<or> t = ''js''"
  by (auto simp: component_path_def)

lemma component_path_ext:
  "component_path m t aot = Some p \<Longrightarrow> \<exists>stem. p = m @ stem @ ''.'' @ ext aot"
  by (auto simp: component_path_def split: if_splits)

text \<open>
  C22.  The two load modes of one family resolve to different files (the
  binary and the precompiled image), under any manifest directory.
\<close>

theorem component_path_modes_differ:
  assumes "component_path m t True = Some p1" and "component_path m t False = Some p2"
  shows "p1 \<noteq> p2"
  using assms by (auto simp: component_path_def ext_def split: if_splits)

end
