(* ===== verification/Runner.thy ===== *)
theory Runner
  imports Instance Cli
begin

text \<open>
  \<open>fn main()\<close> of src/runner/src/main.rs (lines 26-87), the composition of
  every stage: argument check, flag, manifest directory, path, loading line,
  engine and artifact, WASI linker, context and store, instantiation, the
  one call with the request \<open>{ uri: "Test URI" }\<close>, and the response line.
  The process is a function from its arguments and its environment (the
  variables and the files) to what it does: the ordered events it emits on
  standard output and standard error, the file it loads, and its exit status.
  \<open>std::process::exit(1)\<close> is exit status 1; every \<open>.expect(msg)\<close> on an
  error panics, which prints the message and the error to standard error and
  exits with status 101.  A guest call that never returns blocks the process:
  the outcome is \<open>None\<close>.
\<close>

record os =
  os_env :: "string \<rightharpoonup> string"
  os_fs :: filesystem

datatype panic_cause =
    IndexOutOfBounds nat nat
  | EnvNotPresent
  | WasmError wasm_error

datatype event =
    Stdout string
  | Stderr string
  | LoadFrom path bool
  | Panicked string panic_cause

record outcome =
  events :: "event list"
  exit_code :: int

definition panic :: "event list \<Rightarrow> string \<Rightarrow> panic_cause \<Rightarrow> outcome" where
  "panic evs msg cause = \<lparr>events = evs @ [Panicked msg cause], exit_code = 101\<rparr>"

definition exit_with :: "event list \<Rightarrow> int \<Rightarrow> outcome" where
  "exit_with evs code = \<lparr>events = evs, exit_code = code\<rparr>"

text \<open>Lines 79-81 and 86.\<close>

definition test_request :: request where
  "test_request = \<lparr>uri = ''Test URI''\<rparr>"

definition response_line :: "request \<Rightarrow> string" where
  "response_line resp = ''Response: '' @ uri resp"

text \<open>Lines 58-63: the load mode picks the loader and the panic message.\<close>

definition load_component :: "bool \<Rightarrow> filesystem \<Rightarrow> path \<Rightarrow> wasm_error + artifact" where
  "load_component aot fs p =
     (if aot then deserialize_file engine_default fs p
      else component_from_file engine_default fs p)"

definition load_message :: "bool \<Rightarrow> string" where
  "load_message aot =
     (if aot then ''Failed to load AOT component'' else ''Failed to load component'')"

text \<open>
  Lines 65-86, once the artifact is loaded: linker, context, store,
  instantiation, request, typed call, response line.
\<close>

definition run_artifact :: "event list \<Rightarrow> artifact \<Rightarrow> outcome option" where
  "run_artifact evs a =
     (case add_to_linker_sync linker_new of
        Inl e \<Rightarrow> Some (panic evs ''Failed to add WASI to linker'' (WasmError e))
      | Inr lk \<Rightarrow>
          (let st = store_new engine_default runner_state in
           case instantiate st a lk of
             Inl e \<Rightarrow> Some (panic evs ''Failed to instantiate component'' (WasmError e))
           | Inr (st1, h) \<Rightarrow>
               (case call_handleevent h st1 test_request of
                  None \<Rightarrow> None
                | Some (Inl e, _) \<Rightarrow> Some (panic evs ''Failed to call handleevent'' (WasmError e))
                | Some (Inr resp, _) \<Rightarrow>
                    Some (exit_with (evs @ [Stdout (response_line resp)]) 0))))"

text \<open>Lines 54-63 and the rest.\<close>

definition run_component :: "string \<Rightarrow> bool \<Rightarrow> path \<Rightarrow> os \<Rightarrow> outcome option" where
  "run_component component_type aot p w =
     (let evs = [Stdout (loading_line component_type aot p), LoadFrom p aot] in
      case load_component aot (os_fs w) p of
        Inl e \<Rightarrow> Some (panic evs (load_message aot) (WasmError e))
      | Inr a \<Rightarrow> run_artifact evs a)"

text \<open>
  Lines 26-52.  \<open>args[0]\<close> in the usage branch is an indexing that panics
  when the argument vector is empty.
\<close>

definition main :: "string list \<Rightarrow> os \<Rightarrow> outcome option" where
  "main args w =
     (if length args < 2 then
        (case args of
           [] \<Rightarrow> Some (panic [] ''index out of bounds'' (IndexOutOfBounds 0 0))
         | a0 # _ \<Rightarrow> Some (exit_with [Stderr (usage_line a0)] 1))
      else
        (let component_type = args ! 1; aot = use_aot args in
         case os_env w ''CARGO_MANIFEST_DIR'' of
           None \<Rightarrow>
             Some (panic [] ''CARGO_MANIFEST_DIR not set. Please run using cargo'' EnvNotPresent)
         | Some manifest \<Rightarrow>
             (case component_path manifest component_type aot of
                None \<Rightarrow> Some (exit_with [Stderr (invalid_type_line component_type)] 1)
              | Some p \<Rightarrow> run_component component_type aot p w)))"

section \<open>Deployments that reach the call\<close>

text \<open>
  The situation every end-to-end property starts from: the artifact file at
  the resolved path holds a component (as a binary, or as an image of this
  engine), and the component is ready to run under the runner's linker:
  valid, compilable, every import satisfied by the WASI bundle, no trapping
  start-up code, and the one export bound with the right type.  Then
  \<open>main\<close> comes down to the outcome of its one typed call.
\<close>


definition deployed :: "bool \<Rightarrow> filesystem \<Rightarrow> path \<Rightarrow> component \<Rightarrow> bool" where
  "deployed aot fs p c \<longleftrightarrow>
     (if aot then fs p = Some (Cwasm \<lparr>img_version = eng_version engine_default, img_code = c\<rparr>)
      else fs p = Some (Binary c))"

definition instance_ready :: "component \<Rightarrow> guest_export \<Rightarrow> bool" where
  "instance_ready c ge \<longleftrightarrow>
     wf_component c \<and> set (c_features c) \<subseteq> set (eng_features engine_default) \<and>
     list_all (import_satisfied \<lparr>lk_instances = map_of wasi_p2_sync\<rparr>) (c_imports c) \<and>
     c_start c = None \<and> lookup_handleevent c = Inr ge"

definition ready_outcome :: "event list \<Rightarrow> component \<Rightarrow> guest_export \<Rightarrow> outcome option" where
  "ready_outcome evs c ge =
     (case call_handleevent \<lparr>hw_instance = 0, hw_handleevent = ge\<rparr>
             \<lparr>st_data = runner_state, st_instances = [new_instance c]\<rparr> test_request of
        None \<Rightarrow> None
      | Some (Inl e, _) \<Rightarrow> Some (panic evs ''Failed to call handleevent'' (WasmError e))
      | Some (Inr resp, _) \<Rightarrow> Some (exit_with (evs @ [Stdout (response_line resp)]) 0))"

text \<open>The outcome without its first two events (the loading line and the load).\<close>

definition outcome_tail :: "outcome \<Rightarrow> outcome" where
  "outcome_tail r = r\<lparr>events := drop 2 (events r)\<rparr>"

lemmas runner_defs [host_simps] = panic_def exit_with_def test_request_def response_line_def
  load_component_def load_message_def

section \<open>Reduction of main to its call\<close>

lemma load_component_deployed:
  assumes "deployed aot fs p c" and "wf_component c"
    and "set (c_features c) \<subseteq> set (eng_features engine_default)"
  shows "\<exists>a. load_component aot fs p = Inr a \<and> artifact_code a = c"
  using assms
  by (cases aot) (auto simp: deployed_def load_component_def deserialize_file_def
                       component_from_file_def compile_component_def)

lemma run_artifact_ready:
  assumes "instance_ready c ge" and "artifact_code a = c"
  shows "run_artifact evs a = ready_outcome evs c ge"
proof -
  have "instantiate (store_new engine_default runner_state) a \<lparr>lk_instances = map_of wasi_p2_sync\<rparr> =
        Inr (\<lparr>st_data = runner_state, st_instances = [new_instance c]\<rparr>,
             \<lparr>hw_instance = 0, hw_handleevent = ge\<rparr>)"
    using assms
    by (simp add: instance_ready_def instantiate_def store_new_def resolve_imports_Inr_iff
             [THEN iffD2, of _ _ "()", simplified])
  then show ?thesis
    by (simp add: run_artifact_def add_to_linker_sync_new ready_outcome_def)
qed

lemma main_ready:
  assumes "2 \<le> length args" and "os_env w ''CARGO_MANIFEST_DIR'' = Some m"
    and "component_path m (args ! 1) (use_aot args) = Some p"
    and "deployed (use_aot args) (os_fs w) p c" and "instance_ready c ge"
  shows "main args w =
           ready_outcome [Stdout (loading_line (args ! 1) (use_aot args) p), LoadFrom p (use_aot args)] c ge"
proof -
  have "wf_component c" and "set (c_features c) \<subseteq> set (eng_features engine_default)"
    using assms(5) by (simp_all add: instance_ready_def)
  then obtain a where "load_component (use_aot args) (os_fs w) p = Inr a"
    and "artifact_code a = c"
    using load_component_deployed [OF assms(4)] by blast
  with assms show ?thesis
    by (simp add: main_def run_component_def run_artifact_ready Let_def)
qed

lemma new_instance_rust_wf:
  "wf_component c \<Longrightarrow> ret_area + 8 \<le> c_heap_base c \<Longrightarrow> rust_guest_wf (is_guest (new_instance c))"
  by (simp add: new_instance_def rust_guest_wf_def guest_wf_def wf_component_def)

lemma test_request_utf8: "utf8_valid (str_bytes (uri test_request))"
  by (simp add: test_request_def str_bytes_def byte_of_char_def utf8_seq_def)

lemma run_artifact_code:
  assumes "artifact_code a = artifact_code b"
  shows "run_artifact evs a = run_artifact evs b"
proof -
  have eq: "\<And>st lk. instantiate st a lk = instantiate st b lk"
    using assms by (simp add: instantiate_def)
  show ?thesis unfolding run_artifact_def eq ..
qed

lemma run_artifact_tail:
  "length evs = 2 \<Longrightarrow> map_option outcome_tail (run_artifact evs a) = run_artifact [] a"
  by (auto simp: run_artifact_def panic_def exit_with_def outcome_tail_def Let_def
           split: sum.splits option.splits prod.splits)

lemma main_loaded:
  assumes "2 \<le> length args" and "os_env w ''CARGO_MANIFEST_DIR'' = Some m"
    and "component_path m (args ! 1) (use_aot args) = Some p"
    and "deployed (use_aot args) (os_fs w) p c" and "wf_component c"
    and "set (c_features c) \<subseteq> set (eng_features engine_default)"
  shows "main args w =
           run_artifact [Stdout (loading_line (args ! 1) (use_aot args) p), LoadFrom p (use_aot args)]
             (SourceCompiled c)"
proof -
  obtain a where "load_component (use_aot args) (os_fs w) p = Inr a" and "artifact_code a = c"
    using load_component_deployed [OF assms(4-6)] by blast
  moreover have "run_artifact evs a = run_artifact evs (SourceCompiled c)" for evs
    using \<open>artifact_code a = c\<close> by (intro run_artifact_code) simp
  ultimately show ?thesis
    using assms(1-3) by (simp add: main_def run_component_def Let_def)
qed

lemma run_artifact_instantiate:
  "run_artifact evs a =
     (case instantiate (store_new engine_default runner_state) a \<lparr>lk_instances = map_of wasi_p2_sync\<rparr> of
        Inl e \<Rightarrow> Some (panic evs ''Failed to instantiate component'' (WasmError e))
      | Inr (st1, h) \<Rightarrow>
          (case call_handleevent h st1 test_request of
             None \<Rightarrow> None
           | Some (Inl e, _) \<Rightarrow> Some (panic evs ''Failed to call handleevent'' (WasmError e))
           | Some (Inr resp, _) \<Rightarrow> Some (exit_with (evs @ [Stdout (response_line resp)]) 0)))"
  by (simp add: run_artifact_def add_to_linker_sync_new)

lemma ready_lowered:
  assumes "wf_component c" and "c_heap_base c + 8 \<le> max_mem"
  shows "\<exists>g1 args. lower_request (is_guest (new_instance c)) test_request = Inr (g1, args)"
proof -
  have "guest_wf (is_guest (new_instance c))"
    using assms(1) by (simp add: new_instance_def guest_wf_def wf_component_def)
  moreover have "length (uri test_request) \<le> max_string_bytes"
    by (simp add: test_request_def max_string_bytes_def)
  moreover have "g_heap (is_guest (new_instance c)) + length (uri test_request) \<le> max_mem"
    using assms(2) by (simp add: new_instance_def test_request_def)
  ultimately show ?thesis by (rule lower_request_succeeds)
qed

end
