(* ===== verification/Spec2Isabelle.thy ===== *)
theory Spec2Isabelle
  imports Runner
begin

text \<open>
  \<^bold>\<open>A verified model of the js-wasm-binary-sizes runner.\<close>

  The repository has two programs.  src/runner/src/main.rs is a host that
  loads one WebAssembly component (the Rust or the JavaScript build of a
  passthrough handler), links the WASI 0.2 host functions into it,
  instantiates it in a wasmtime store, and calls its exported
  \<open>handleevent\<close> once with the request \<open>Test URI\<close>, printing the response.
  src/component/rust/src/lib.rs is the Rust guest: \<open>handleevent\<close> returns
  its argument.  The parts interact through the WIT world
  \<open>test:test/handler-interface\<close>: the host lowers the request into the
  guest's 32-bit linear memory by the canonical ABI, the guest's export glue
  runs the function and stores the result's pointer and length in a return
  area, the host lifts the response back, and the post-return function
  frees the guest's buffer.

  \<^bold>\<open>Theories and what they model.\<close>
  \<^item> Prelude: paths, bytes, \<open>u32 = 32 word\<close>; \<open>bind_res\<close>, the \<open>?\<close> of
    \<open>wasm_error + 'a\<close> results; byte ranges of a linear memory
    (\<open>read_bytes\<close>, \<open>write_bytes\<close>) with their frame lemmas.
  \<^item> Wit: component types, the \<open>request\<close> record (main.rs lines 79-81),
    and the function type and export names of the handler world.
  \<^item> Marshal: strings as bytes, little-endian words, the UTF-8 check
    (\<open>utf8_valid\<close>, a \<open>function\<close> terminating on the length), the guest's bump
    allocator \<open>cabi_realloc\<close>/\<open>cabi_free\<close> with 64 KiB page growth capped at
    2^32 bytes, and the lowering and lifting of the request.
  \<^item> Guest: lib.rs's \<open>handleevent\<close> (lines 9-11) and the glue \<open>export!\<close>
    generates (line 14): \<open>export_handleevent\<close>, \<open>store_ret\<close>,
    \<open>post_handleevent\<close>; a guest body is a function from guest state and
    flat arguments to \<open>(trap + state \<times> results) option\<close>, \<open>None\<close> when the
    guest never returns.
  \<^item> Engine: the error taxonomy, \<open>Engine::default\<close> (line 57),
    \<open>Component::from_file\<close> (line 62, validates) and
    \<open>Component::deserialize_file\<close> (line 60, checks only the engine version).
  \<^item> Linker: \<open>Linker::new\<close> and \<open>add_to_linker_sync\<close> (lines 66-67) as a
    registry built from the WASI bundle.  As in wasmtime, a function that
    is already defined cannot be defined again.
  \<^item> Store: \<open>MyState\<close>, its \<open>WasiView\<close> (lines 12-24), the context and
    table of lines 70-72, and \<open>Store::new\<close> (line 73) holding instance states.
  \<^item> Instance: \<open>HandlerWorld::instantiate\<close> (lines 76-77: imports, typed
    export, start-up, in that order), the typed call \<open>call_handleevent\<close>
    (line 84: lower, run, lift, post-return; a trap poisons the instance),
    and \<open>call_seq\<close>, repeated calls as an inductive relation.
  \<^item> Cli and Runner: \<open>main\<close> (lines 26-87) as a function from the argument
    vector and the environment (variables and files) to an \<open>outcome option\<close>
    (the ordered stdout, stderr, load and panic events and the exit
    status: 1 for \<open>process::exit(1)\<close>, 101 for a panic); \<open>None\<close> is a run
    that never ends.

  \<^bold>\<open>What is proved.\<close>  This theory proves the end-to-end behaviour of
  \<open>main\<close> in claims C1-C11 and C23-C24.  These cover the passthrough
  response, the equivalence of the two load modes, and every failure path:
  a missing file, a guest trap, a hang, too few arguments, a bad selector,
  no manifest directory, an unresolved import, a mistyped export, a
  start-up trap, an incompatible precompiled image and a malformed binary.
  The component theories prove the parts:
  \<^item> the call is idempotent on the passthrough guest (C12);
  \<^item> the guest glue passes the argument's buffer back (C13);
  \<^item> deserialization does not re-validate the image (C14);
  \<^item> instantiation fails fast on imports and otherwise adds exactly one
    instance (C15-C16);
  \<^item> a call changes only its own instance (C17), a trap poisons it (C18),
    and a poisoned instance refuses every later call (C19);
  \<^item> the 32-bit memory and string limits are enforced as errors (C20-C21);
  \<^item> the two load modes use distinct files (C22);
  \<^item> a successful call frees the guest's buffer, leaving the heap as it was
    (C25);
  \<^item> the WASI bundle cannot be registered twice on one linker (C26);
  \<^item> a marshaling error either leaves the store untouched or poisons the
    instance (C27).
  The lemmas that carry these proofs are:
  \<^item> the allocator keeps its invariant \<open>guest_wf\<close>;
  \<^item> lowering followed by lifting is the identity on strings and on
    little-endian words;
  \<^item> UTF-8 validity is closed under concatenation;
  \<^item> registration on a fresh linker yields exactly the bundle, and a
    definition, once made, is kept.
  The definitions in the first sections of this theory are concrete guests,
  stores and file systems at which every claim with a hypothesis is
  evaluated by \<open>simp\<close>.

  \<^bold>\<open>Bounds and non-termination.\<close>  No fuel is used.  Every loop of the model
  is structural recursion or \<open>utf8_valid\<close>'s measured recursion.  The only
  unbounded behaviour of the program is a guest that never returns: it is
  the value \<open>None\<close> of the guest body, which \<open>call_handleevent\<close> and \<open>main\<close>
  propagate (C5).  No wasmtime fuel or epoch is configured in main.rs.
  Guest addresses are 32-bit words.  The memory is at most 2^32 bytes
  (\<open>max_mem\<close>) and grows by 65536-byte pages.  A string is at most
  2^31 - 1 bytes (\<open>max_string_bytes\<close>), the canonical ABI's limit.  The
  return area of the Rust guest is at byte 1024.

  \<^bold>\<open>Not modelled.\<close>
  \<^item> The JavaScript guest (component/js, not under src/).  It is an
    opaque component and appears only as a file path.
  \<^item> The internals of wasmtime's compiler and of wasmtime-wasi.  Only the
    contracts of the calls main.rs makes are modelled.
  \<^item> The core Wasm instructions of a guest other than lib.rs's.  They
    appear as an arbitrary guest body.
  \<^item> The WIT file, the WASI bundle and the canonical-ABI details.  These
    lie outside src/, so they are modelled from the specification.
  \<^item> Output buffering and concurrency.  The program has neither beyond
    ordered prints.  A run that never ends has the outcome \<open>None\<close>, so the
    loading line it printed before the call is not recorded.
  \<^item> Arguments or environment values that are not valid Unicode, and write
    errors on stdout.  The program panics on these.
  \<^item> The engine's version string and feature list are placeholders.  They
    serve only the compatibility checks of the two loaders.
  \<^item> The WASI context is built as main.rs builds it (lines 70-72).  No guest
    of the model calls a WASI function, so the model does not state what
    the context grants.
\<close>

section \<open>A deployment of the passthrough guest\<close>

text \<open>
  The Rust guest as cargo and the component tooling build it: it imports a
  few WASI interfaces (those its standard library uses), exports the handler
  interface with the bound \<open>handleevent\<close>, has no start-up trap, and a
  1 MiB data segment below its heap.  The runner's directory and the file
  layout its build leaves behind.
\<close>

definition rust_handler_component :: component where
  "rust_handler_component =
     \<lparr>c_imports =
        [(''wasi:cli/environment'', [(''get-environment'', fn0 [WList (WTuple [WString, WString])])]),
         (''wasi:cli/exit'', [(''exit'', \<lparr>ft_params = [WResult None None], ft_results = []\<rparr>)]),
         (''wasi:cli/stdout'', [(''get-stdout'', fn0 [WOwn ''output-stream''])])],
      c_exports = [(handler_interface_name, [(handleevent_name, rust_handleevent_export)])],
      c_start = None,
      c_features = [''component-model'', ''multi-value''],
      c_mem_pages = 17,
      c_heap_base = 1048576\<rparr>"

definition manifest_dir :: string where
  "manifest_dir = ''/app/runner''"

definition rs_wasm_path :: path where
  "rs_wasm_path = ''/app/runner/../component/rust/target/wasm32-wasip1/release/handler_rs.wasm''"

definition example_os :: os where
  "example_os =
     \<lparr>os_env = [''CARGO_MANIFEST_DIR'' \<mapsto> manifest_dir],
      os_fs = [rs_wasm_path \<mapsto> Binary rust_handler_component]\<rparr>"

definition js_wasm_path :: path where
  "js_wasm_path = ''/app/runner/../component/js/handler.wasm''"

definition rs_cwasm_path :: path where
  "rs_cwasm_path = ''/app/runner/../component/rust/target/wasm32-wasip1/release/handler_rs.cwasm''"

text \<open>Both artifacts of the Rust family: the binary and its precompiled image.\<close>

definition example_os_aot :: os where
  "example_os_aot =
     example_os\<lparr>os_fs := [rs_wasm_path \<mapsto> Binary rust_handler_component,
                          rs_cwasm_path \<mapsto> Cwasm \<lparr>img_version = ''wasmtime'',
                                                  img_code = rust_handler_component\<rparr>]\<rparr>"

text \<open>Guests that fail in the ways the spec names: a trap, a loop that never returns.\<close>

definition trapping_export :: guest_export where
  "trapping_export =
     \<lparr>ge_type = handleevent_type, ge_call = (\<lambda>g a. Some (Inl TrapUnreachable)),
      ge_post = post_handleevent\<rparr>"

definition spinning_export :: guest_export where
  "spinning_export =
     \<lparr>ge_type = handleevent_type, ge_call = (\<lambda>g a. None), ge_post = post_handleevent\<rparr>"

definition with_export :: "guest_export \<Rightarrow> component" where
  "with_export ge =
     rust_handler_component\<lparr>c_exports := [(handler_interface_name, [(handleevent_name, ge)])]\<rparr>"

definition os_with :: "component \<Rightarrow> os" where
  "os_with c = example_os\<lparr>os_fs := [rs_wasm_path \<mapsto> Binary c]\<rparr>"

definition http_client_component :: component where
  "http_client_component =
     rust_handler_component\<lparr>c_imports := c_imports rust_handler_component @
        [(''wasi:http/outgoing-handler'', [(''handle'', fn0 [WU32])])]\<rparr>"

lemmas deployment_simps = example_os_def manifest_dir_def rs_wasm_path_def js_wasm_path_def
  rs_cwasm_path_def component_path_def ext_def use_aot_def deployed_def instance_ready_def
  rust_handler_component_def wf_component_def engine_default_def import_satisfied_def
  wasi_p2_sync_def fn0_def lookup_handleevent_def wit_defs rust_handleevent_export_def
  page_size_def max_mem_def ret_area_def loading_line_def

section \<open>Stores, guests and files for the component properties\<close>

text \<open>
  The store the runner's instantiation of the Rust guest produces and its
  handle; a one-page guest memory with the heap past the return area; a
  store with a trapping guest (twice, so that the frame of a call shows) and
  one whose instance is already poisoned; the artifact files of a component.
\<close>

definition rust_store :: "my_state store" where
  "rust_store = \<lparr>st_data = runner_state, st_instances = [new_instance rust_handler_component]\<rparr>"

definition rust_handle :: handler_world where
  "rust_handle = \<lparr>hw_instance = 0, hw_handleevent = rust_handleevent_export\<rparr>"

definition small_guest :: guest_state where
  "small_guest = \<lparr>g_mem = replicate 65536 0, g_heap = 2048\<rparr>"

definition trap_instance :: inst_state where
  "trap_instance = \<lparr>is_code = with_export trapping_export, is_guest = small_guest, is_poisoned = False\<rparr>"

definition trap_store :: "unit store" where
  "trap_store = \<lparr>st_data = (), st_instances = [trap_instance, trap_instance]\<rparr>"

definition trap_handle :: handler_world where
  "trap_handle = \<lparr>hw_instance = 0, hw_handleevent = trapping_export\<rparr>"

definition poisoned_store :: "unit store" where
  "poisoned_store = \<lparr>st_data = (), st_instances = [trap_instance\<lparr>is_poisoned := True\<rparr>]\<rparr>"

definition cwasm_of :: "component \<Rightarrow> artifact_file" where
  "cwasm_of c = Cwasm \<lparr>img_version = ''wasmtime'', img_code = c\<rparr>"

definition artifacts_of :: "component \<Rightarrow> filesystem" where
  "artifacts_of c = [rs_wasm_path \<mapsto> Binary c, rs_cwasm_path \<mapsto> cwasm_of c]"

definition full_store :: "unit store" where
  "full_store =
     \<lparr>st_data = (),
      st_instances = [\<lparr>is_code = rust_handler_component,
                       is_guest = \<lparr>g_mem = replicate (2 ^ 32) 0, g_heap = 2 ^ 32 - 4\<rparr>,
                       is_poisoned = False\<rparr>]\<rparr>"

definition http_import :: "string \<times> (string \<times> func_type) list" where
  "http_import = (''wasi:http/outgoing-handler'', [(''handle'', fn0 [WU32])])"



section \<open>End-to-end behaviour of the runner\<close>

text \<open>
  C1.  For every invocation with a valid family selector, under a manifest
  directory, where the resolved artifact file holds a component that is
  ready to run under the WASI linker and exports the passthrough
  \<open>handleevent\<close> of lib.rs (with its data segment below the heap), the
  runner prints the loading line, loads that file, prints exactly
  \<open>Response: Test URI\<close>, and exits with status 0: the response equals
  the request, in either load mode.
\<close>

theorem main_passthrough:
  assumes "2 \<le> length args" and "os_env w ''CARGO_MANIFEST_DIR'' = Some m"
    and "component_path m (args ! 1) (use_aot args) = Some p"
    and "deployed (use_aot args) (os_fs w) p c"
    and "instance_ready c rust_handleevent_export"
    and "ret_area + 8 \<le> c_heap_base c" and "c_heap_base c + 8 \<le> max_mem"
  shows "main args w =
           Some (exit_with [Stdout (loading_line (args ! 1) (use_aot args) p),
                            LoadFrom p (use_aot args), Stdout ''Response: Test URI''] 0)"
proof -
  let ?st = "\<lparr>st_data = runner_state, st_instances = [new_instance c]\<rparr>"
  let ?h = "\<lparr>hw_instance = 0, hw_handleevent = rust_handleevent_export\<rparr>"
  have wf: "rust_guest_wf (is_guest (st_instances ?st ! hw_instance ?h))"
    using assms(5,6) new_instance_rust_wf by (simp add: instance_ready_def)
  have fits: "g_heap (is_guest (st_instances ?st ! hw_instance ?h)) + length (uri test_request) \<le> max_mem"
    using assms(7) by (simp add: new_instance_def test_request_def)
  have short: "length (uri test_request) \<le> max_string_bytes"
    by (simp add: test_request_def max_string_bytes_def)
  obtain g3 where "call_handleevent ?h ?st test_request = Some (Inr test_request, set_guest ?st 0 g3)"
    using call_handleevent_rust [of ?h ?st test_request] wf fits short test_request_utf8
    by (auto simp: new_instance_def)
  then show ?thesis
    using main_ready [OF assms(1-5)]
    by (simp add: ready_outcome_def response_line_def test_request_def)
qed

theorem main_passthrough_witness:
  "main [''runner'', ''rs''] example_os =
     Some (exit_with
       [Stdout (''Loading rs component from: '' @ rs_wasm_path), LoadFrom rs_wasm_path False,
        Stdout ''Response: Test URI''] 0)"
proof -
  have "main [''runner'', ''rs''] example_os =
          Some (exit_with [Stdout (loading_line ''rs'' False rs_wasm_path),
                           LoadFrom rs_wasm_path False, Stdout ''Response: Test URI''] 0)"
    using main_passthrough [of "[''runner'', ''rs'']" example_os manifest_dir rs_wasm_path
                               rust_handler_component]
    by (simp add: deployment_simps)
  then show ?thesis by (simp add: loading_line_def)
qed


text \<open>
  C2.  The two load modes are observably the same (spec section 8): when the
  precompiled image was produced by this engine from the binary that the
  compile mode loads, adding \<open>--aot\<close> changes nothing after the loading line
  and the load: the same response or the same failure, the same exit status.
\<close>

theorem main_aot_equivalent:
  assumes "2 \<le> length args" and "\<not> use_aot args"
    and "os_env w ''CARGO_MANIFEST_DIR'' = Some m"
    and "component_path m (args ! 1) False = Some p1" and "component_path m (args ! 1) True = Some p2"
    and "os_fs w p1 = Some (Binary c)" and "precompile_component engine_default c = Inr img"
    and "os_fs w p2 = Some (Cwasm img)"
  shows "map_option outcome_tail (main (args @ [''--aot'']) w) = map_option outcome_tail (main args w)"
proof -
  have c: "compile_component engine_default c = Inr c"
    and img: "img = \<lparr>img_version = eng_version engine_default, img_code = c\<rparr>"
    using assms(7) by (auto simp: precompile_component_def compile_component_def bind_res_eq_Inr
                            split: if_splits)
  have aot: "use_aot (args @ [''--aot''])" by (simp add: use_aot_def)
  have len: "\<not> length (args @ [''--aot'']) < 2" "\<not> length args < 2"
    using assms(1) by auto
  have nth: "(args @ [''--aot'']) ! 1 = args ! 1" using assms(1) by (simp add: nth_append)
  have l1: "load_component False (os_fs w) p1 = Inr (SourceCompiled c)"
    using assms(6) c by (simp add: load_component_def component_from_file_def)
  have l2: "load_component True (os_fs w) p2 = Inr (Precompiled c)"
    using assms(8) img by (simp add: load_component_def deserialize_file_def)
  have "run_artifact [] (Precompiled c) = run_artifact [] (SourceCompiled c)"
    by (rule run_artifact_code) simp
  then show ?thesis
    using assms(2-5) len aot nth l1 l2
    by (simp add: main_def run_component_def Let_def run_artifact_tail)
qed

theorem main_aot_equivalent_witness:
  "map_option outcome_tail (main [''runner'', ''rs'', ''--aot''] example_os_aot) =
   map_option outcome_tail (main [''runner'', ''rs''] example_os_aot)"
  using main_aot_equivalent [of "[''runner'', ''rs'']" example_os_aot manifest_dir rs_wasm_path
      rs_cwasm_path rust_handler_component "\<lparr>img_version = ''wasmtime'', img_code = rust_handler_component\<rparr>"]
  by (simp add: deployment_simps example_os_aot_def precompile_component_def compile_component_def)

text \<open>
  C3.  A missing artifact file is reported as \<open>NotFound\<close> by the loader of
  either mode and ends the run with the loader's panic message (exit 101):
  nothing is linked, instantiated or called, and no guest trap occurs.
\<close>

theorem main_missing_artifact:
  assumes "2 \<le> length args" and "os_env w ''CARGO_MANIFEST_DIR'' = Some m"
    and "component_path m (args ! 1) (use_aot args) = Some p" and "os_fs w p = None"
  shows "main args w =
           Some (panic [Stdout (loading_line (args ! 1) (use_aot args) p), LoadFrom p (use_aot args)]
                   (load_message (use_aot args)) (WasmError (LoadErr NotFound)))"
  using assms
  by (cases "use_aot args")
     (simp_all add: main_def run_component_def load_component_def deserialize_file_def
                    component_from_file_def Let_def)

theorem main_missing_artifact_witness:
  "main [''runner'', ''js''] example_os =
     Some (panic [Stdout (''Loading js component from: '' @ js_wasm_path), LoadFrom js_wasm_path False]
             ''Failed to load component'' (WasmError (LoadErr NotFound)))"
  using main_missing_artifact [of "[''runner'', ''js'']" example_os manifest_dir js_wasm_path]
  by (simp add: deployment_simps load_message_def)

text \<open>
  C4.  A guest that traps during the call makes the runner report the trap
  (\<open>Failed to call handleevent\<close> with \<open>CallError::Trap\<close>) and exit with the
  panic status 101 after the loading line.
\<close>

theorem main_guest_trap:
  assumes "2 \<le> length args" and "os_env w ''CARGO_MANIFEST_DIR'' = Some m"
    and "component_path m (args ! 1) (use_aot args) = Some p"
    and "deployed (use_aot args) (os_fs w) p c" and "instance_ready c ge"
    and "c_heap_base c + 8 \<le> max_mem" and "\<forall>g a. ge_call ge g a = Some (Inl t)"
  shows "main args w =
           Some (panic [Stdout (loading_line (args ! 1) (use_aot args) p), LoadFrom p (use_aot args)]
                   ''Failed to call handleevent'' (WasmError (CallErr (Trap t))))"
proof -
  have "wf_component c" using assms(5) by (simp add: instance_ready_def)
  then obtain g1 a where "lower_request (is_guest (new_instance c)) test_request = Inr (g1, a)"
    using ready_lowered assms(6) by blast
  with assms(7) have "ready_outcome evs c ge =
      Some (panic evs ''Failed to call handleevent'' (WasmError (CallErr (Trap t))))" for evs
    by (simp add: ready_outcome_def call_handleevent_def)
  then show ?thesis by (simp add: main_ready [OF assms(1-5)])
qed

theorem main_guest_trap_witness:
  "main [''runner'', ''rs''] (os_with (with_export trapping_export)) =
     Some (panic [Stdout (''Loading rs component from: '' @ rs_wasm_path), LoadFrom rs_wasm_path False]
             ''Failed to call handleevent'' (WasmError (CallErr (Trap TrapUnreachable))))"
  using main_guest_trap [of "[''runner'', ''rs'']" "os_with (with_export trapping_export)" manifest_dir
      rs_wasm_path "with_export trapping_export" trapping_export TrapUnreachable]
  by (simp add: deployment_simps os_with_def with_export_def trapping_export_def)

text \<open>
  C5.  A guest that neither traps nor returns blocks the runner forever: the
  process has no outcome (spec section 5, no timeout in this core).
\<close>

theorem main_guest_hangs:
  assumes "2 \<le> length args" and "os_env w ''CARGO_MANIFEST_DIR'' = Some m"
    and "component_path m (args ! 1) (use_aot args) = Some p"
    and "deployed (use_aot args) (os_fs w) p c" and "instance_ready c ge"
    and "c_heap_base c + 8 \<le> max_mem" and "\<forall>g a. ge_call ge g a = None"
  shows "main args w = None"
proof -
  have "wf_component c" using assms(5) by (simp add: instance_ready_def)
  then obtain g1 a where "lower_request (is_guest (new_instance c)) test_request = Inr (g1, a)"
    using ready_lowered assms(6) by blast
  with assms(7) have "ready_outcome evs c ge = None" for evs
    by (simp add: ready_outcome_def call_handleevent_def)
  then show ?thesis by (simp add: main_ready [OF assms(1-5)])
qed

theorem main_guest_hangs_witness:
  "main [''runner'', ''rs''] (os_with (with_export spinning_export)) = None"
  using main_guest_hangs [of "[''runner'', ''rs'']" "os_with (with_export spinning_export)" manifest_dir
      rs_wasm_path "with_export spinning_export" spinning_export]
  by (simp add: deployment_simps os_with_def with_export_def spinning_export_def)

text \<open>
  C6.  With fewer than two arguments the runner prints the usage line built
  from the program name to standard error and exits with status 1, loading
  nothing.
\<close>

theorem main_usage: "main [a0] w = Some (exit_with [Stderr (usage_line a0)] 1)"
  by (simp add: main_def)

text \<open>
  C7.  An unknown family selector (anything but \<open>rs\<close> and \<open>js\<close>) is reported
  on standard error and ends the run with status 1 before any load.
\<close>

theorem main_invalid_selector:
  assumes "2 \<le> length args" and "args ! 1 \<noteq> ''rs''" and "args ! 1 \<noteq> ''js''"
    and "os_env w ''CARGO_MANIFEST_DIR'' = Some m"
  shows "main args w = Some (exit_with [Stderr (invalid_type_line (args ! 1))] 1)"
  using assms by (simp add: main_def component_path_def)

theorem main_invalid_selector_witness:
  "main [''runner'', ''zz''] example_os = Some (exit_with [Stderr (invalid_type_line ''zz'')] 1)"
  using main_invalid_selector [of "[''runner'', ''zz'']" example_os manifest_dir]
  by (simp add: example_os_def)

text \<open>
  C8.  The manifest directory is read before the selector is checked: without
  \<open>CARGO_MANIFEST_DIR\<close> every invocation with two arguments, an unknown
  selector included, panics on that variable (exit 101) instead of printing
  the selector diagnostic.
\<close>

theorem main_no_manifest:
  assumes "2 \<le> length args" and "os_env w ''CARGO_MANIFEST_DIR'' = None"
  shows "main args w =
           Some (panic [] ''CARGO_MANIFEST_DIR not set. Please run using cargo'' EnvNotPresent)"
  using assms by (simp add: main_def)

theorem main_no_manifest_witness:
  "main [''runner'', ''zz''] (example_os\<lparr>os_env := Map.empty\<rparr>) =
     Some (panic [] ''CARGO_MANIFEST_DIR not set. Please run using cargo'' EnvNotPresent)"
  using main_no_manifest [of "[''runner'', ''zz'']" "example_os\<lparr>os_env := Map.empty\<rparr>"]
  by simp

text \<open>
  C9.  A component that imports an interface the WASI linker does not
  provide fails at instantiation with the first such import named, and the
  run ends with the instantiation panic.
\<close>

theorem main_unresolved_import:
  assumes "2 \<le> length args" and "os_env w ''CARGO_MANIFEST_DIR'' = Some m"
    and "component_path m (args ! 1) (use_aot args) = Some p"
    and "deployed (use_aot args) (os_fs w) p c" and "wf_component c"
    and "set (c_features c) \<subseteq> set (eng_features engine_default)"
    and "find (\<lambda>imp. \<not> import_satisfied \<lparr>lk_instances = map_of wasi_p2_sync\<rparr> imp) (c_imports c) = Some imp"
  shows "main args w =
           Some (panic [Stdout (loading_line (args ! 1) (use_aot args) p), LoadFrom p (use_aot args)]
                   ''Failed to instantiate component'' (WasmError (InstErr (UnresolvedImport (fst imp)))))"
  using resolve_imports_first_unsatisfied [OF assms(7)]
  by (simp add: main_loaded [OF assms(1-6)] run_artifact_instantiate instantiate_def)

theorem main_unresolved_import_witness:
  "main [''runner'', ''rs''] (os_with http_client_component) =
     Some (panic [Stdout (''Loading rs component from: '' @ rs_wasm_path), LoadFrom rs_wasm_path False]
             ''Failed to instantiate component''
             (WasmError (InstErr (UnresolvedImport ''wasi:http/outgoing-handler''))))"
  using main_unresolved_import [of "[''runner'', ''rs'']" "os_with http_client_component" manifest_dir
      rs_wasm_path http_client_component "(''wasi:http/outgoing-handler'', [(''handle'', fn0 [WU32])])"]
  by (simp add: deployment_simps os_with_def http_client_component_def)

text \<open>
  C10.  An export named \<open>handleevent\<close> whose declared type is not
  \<open>func(request) -> request\<close> is rejected with \<open>SignatureMismatch\<close> when the
  typed handle is bound, that is during instantiation, never by coercing the
  call.
\<close>

theorem main_signature_mismatch:
  assumes "2 \<le> length args" and "os_env w ''CARGO_MANIFEST_DIR'' = Some m"
    and "component_path m (args ! 1) (use_aot args) = Some p"
    and "deployed (use_aot args) (os_fs w) p c" and "wf_component c"
    and "set (c_features c) \<subseteq> set (eng_features engine_default)"
    and "list_all (import_satisfied \<lparr>lk_instances = map_of wasi_p2_sync\<rparr>) (c_imports c)"
    and "map_of (c_exports c) handler_interface_name = Some fs"
    and "map_of fs handleevent_name = Some ge" and "ge_type ge \<noteq> handleevent_type"
  shows "main args w =
           Some (panic [Stdout (loading_line (args ! 1) (use_aot args) p), LoadFrom p (use_aot args)]
                   ''Failed to instantiate component''
                   (WasmError (CallErr (SignatureMismatch handleevent_name))))"
proof -
  have "resolve_imports \<lparr>lk_instances = map_of wasi_p2_sync\<rparr> (c_imports c) = Inr ()"
    using assms(7) resolve_imports_Inr_iff by blast
  then show ?thesis
    using assms(8-10)
    by (simp add: main_loaded [OF assms(1-6)] run_artifact_instantiate instantiate_def
                  lookup_handleevent_def)
qed

theorem main_signature_mismatch_witness:
  "main [''runner'', ''rs'']
     (os_with (with_export (rust_handleevent_export\<lparr>ge_type := \<lparr>ft_params = [WString], ft_results = [WString]\<rparr>\<rparr>))) =
     Some (panic [Stdout (''Loading rs component from: '' @ rs_wasm_path), LoadFrom rs_wasm_path False]
             ''Failed to instantiate component'' (WasmError (CallErr (SignatureMismatch handleevent_name))))"
  using main_signature_mismatch [of "[''runner'', ''rs'']"
      "os_with (with_export (rust_handleevent_export\<lparr>ge_type := \<lparr>ft_params = [WString], ft_results = [WString]\<rparr>\<rparr>))"
      manifest_dir rs_wasm_path
      "with_export (rust_handleevent_export\<lparr>ge_type := \<lparr>ft_params = [WString], ft_results = [WString]\<rparr>\<rparr>)"
      "[(handleevent_name, rust_handleevent_export\<lparr>ge_type := \<lparr>ft_params = [WString], ft_results = [WString]\<rparr>\<rparr>)]"
      "rust_handleevent_export\<lparr>ge_type := \<lparr>ft_params = [WString], ft_results = [WString]\<rparr>\<rparr>"]
  by (simp add: deployment_simps os_with_def with_export_def)

text \<open>
  C11.  Guest initialization code that traps fails the instantiation with
  \<open>StartTrap\<close>; no call is made.
\<close>

theorem main_start_trap:
  assumes "2 \<le> length args" and "os_env w ''CARGO_MANIFEST_DIR'' = Some m"
    and "component_path m (args ! 1) (use_aot args) = Some p"
    and "deployed (use_aot args) (os_fs w) p c" and "wf_component c"
    and "set (c_features c) \<subseteq> set (eng_features engine_default)"
    and "list_all (import_satisfied \<lparr>lk_instances = map_of wasi_p2_sync\<rparr>) (c_imports c)"
    and "lookup_handleevent c = Inr ge" and "c_start c = Some t"
  shows "main args w =
           Some (panic [Stdout (loading_line (args ! 1) (use_aot args) p), LoadFrom p (use_aot args)]
                   ''Failed to instantiate component'' (WasmError (InstErr (StartTrap t))))"
proof -
  have "resolve_imports \<lparr>lk_instances = map_of wasi_p2_sync\<rparr> (c_imports c) = Inr ()"
    using assms(7) resolve_imports_Inr_iff by blast
  then show ?thesis
    using assms(8-9)
    by (simp add: main_loaded [OF assms(1-6)] run_artifact_instantiate instantiate_def)
qed

theorem main_start_trap_witness:
  "main [''runner'', ''rs''] (os_with (rust_handler_component\<lparr>c_start := Some TrapUnreachable\<rparr>)) =
     Some (panic [Stdout (''Loading rs component from: '' @ rs_wasm_path), LoadFrom rs_wasm_path False]
             ''Failed to instantiate component'' (WasmError (InstErr (StartTrap TrapUnreachable))))"
  using main_start_trap [of "[''runner'', ''rs'']"
      "os_with (rust_handler_component\<lparr>c_start := Some TrapUnreachable\<rparr>)" manifest_dir rs_wasm_path
      "rust_handler_component\<lparr>c_start := Some TrapUnreachable\<rparr>" rust_handleevent_export TrapUnreachable]
  by (simp add: deployment_simps os_with_def)

text \<open>
  C23.  In the precompiled mode, a file that is not an image of this
  engine's version (an image of another version, or a component binary) is
  refused by \<open>deserialize_file\<close>, and the run ends with
  \<open>Failed to load AOT component\<close> after the loading line.
\<close>

theorem main_incompatible_image:
  assumes "2 \<le> length args" and "os_env w ''CARGO_MANIFEST_DIR'' = Some m"
    and "component_path m (args ! 1) (use_aot args) = Some p" and "use_aot args"
    and "os_fs w p = Some f"
    and "case f of Cwasm img \<Rightarrow> img_version img \<noteq> eng_version engine_default | _ \<Rightarrow> True"
  shows "main args w =
           Some (panic [Stdout (loading_line (args ! 1) True p), LoadFrom p True]
                   ''Failed to load AOT component'' (WasmError (LoadErr DeserializeFailure)))"
  using assms
  by (cases f)
     (simp_all add: main_def run_component_def load_component_def deserialize_file_def
                    load_message_def Let_def)

theorem main_incompatible_image_witness:
  "main [''runner'', ''rs'', ''--aot''] (example_os\<lparr>os_fs := [rs_cwasm_path \<mapsto> Cwasm
       \<lparr>img_version = ''wasmtime-old'', img_code = rust_handler_component\<rparr>]\<rparr>) =
     Some (panic [Stdout (''Loading rs component (AOT) from: '' @ rs_cwasm_path), LoadFrom rs_cwasm_path True]
             ''Failed to load AOT component'' (WasmError (LoadErr DeserializeFailure)))"
  using main_incompatible_image [of "[''runner'', ''rs'', ''--aot'']"
      "example_os\<lparr>os_fs := [rs_cwasm_path \<mapsto> Cwasm
         \<lparr>img_version = ''wasmtime-old'', img_code = rust_handler_component\<rparr>]\<rparr>"
      manifest_dir rs_cwasm_path
      "Cwasm \<lparr>img_version = ''wasmtime-old'', img_code = rust_handler_component\<rparr>"]
  by (simp add: deployment_simps rs_cwasm_path_def)

text \<open>
  C24.  In the compile mode, bytes that are not a component, a precompiled
  image, or a component that fails validation are refused as
  \<open>Malformed\<close> by \<open>Component::from_file\<close>, and the run ends with
  \<open>Failed to load component\<close> after the loading line.
\<close>

theorem main_malformed_binary:
  assumes "2 \<le> length args" and "os_env w ''CARGO_MANIFEST_DIR'' = Some m"
    and "component_path m (args ! 1) (use_aot args) = Some p" and "\<not> use_aot args"
    and "os_fs w p = Some f"
    and "case f of Binary c \<Rightarrow> \<not> wf_component c | _ \<Rightarrow> True"
  shows "main args w =
           Some (panic [Stdout (loading_line (args ! 1) False p), LoadFrom p False]
                   ''Failed to load component'' (WasmError (LoadErr Malformed)))"
  using assms
  by (cases f)
     (simp_all add: main_def run_component_def load_component_def component_from_file_def
                    compile_component_def load_message_def Let_def)

theorem main_malformed_binary_witness:
  "main [''runner'', ''rs''] (os_with (rust_handler_component\<lparr>c_heap_base := 2 ^ 40\<rparr>)) =
     Some (panic [Stdout (''Loading rs component from: '' @ rs_wasm_path), LoadFrom rs_wasm_path False]
             ''Failed to load component'' (WasmError (LoadErr Malformed)))"
proof -
  have nwf: "\<not> wf_component (rust_handler_component\<lparr>c_heap_base := 2 ^ 40\<rparr>)"
    by (simp add: wf_component_def rust_handler_component_def page_size_def)
  show ?thesis
    using nwf main_malformed_binary [of "[''runner'', ''rs'']"
        "os_with (rust_handler_component\<lparr>c_heap_base := 2 ^ 40\<rparr>)" manifest_dir rs_wasm_path
        "Binary (rust_handler_component\<lparr>c_heap_base := 2 ^ 40\<rparr>)"]
    by (simp add: os_with_def example_os_def manifest_dir_def rs_wasm_path_def component_path_def
                  ext_def use_aot_def loading_line_def)
qed

section \<open>Component properties at concrete inputs\<close>

theorem call_handleevent_idempotent_witness:
  "hw_instance rust_handle < length (st_instances rust_store) \<and>
   \<not> is_poisoned (st_instances rust_store ! hw_instance rust_handle) \<and>
   hw_handleevent rust_handle = rust_handleevent_export \<and>
   rust_guest_wf (is_guest (st_instances rust_store ! hw_instance rust_handle)) \<and>
   utf8_valid (str_bytes (uri test_request)) \<and> length (uri test_request) \<le> max_string_bytes \<and>
   g_heap (is_guest (st_instances rust_store ! hw_instance rust_handle)) + length (uri test_request) \<le> max_mem \<and>
   (\<exists>st1 st2. call_handleevent rust_handle rust_store test_request = Some (Inr test_request, st1) \<and>
              call_handleevent rust_handle st1 test_request = Some (Inr test_request, st2) \<and>
              st_data st1 = st_data rust_store \<and> st_data st2 = st_data rust_store)"
proof -
  have wf: "rust_guest_wf (is_guest (st_instances rust_store ! hw_instance rust_handle))"
    using new_instance_rust_wf [of rust_handler_component]
    by (simp add: rust_store_def rust_handle_def deployment_simps)
  have hyps: "hw_instance rust_handle < length (st_instances rust_store) \<and>
   \<not> is_poisoned (st_instances rust_store ! hw_instance rust_handle) \<and>
   hw_handleevent rust_handle = rust_handleevent_export \<and>
   length (uri test_request) \<le> max_string_bytes \<and>
   g_heap (is_guest (st_instances rust_store ! hw_instance rust_handle)) + length (uri test_request) \<le> max_mem"
    by (simp add: rust_store_def rust_handle_def new_instance_def test_request_def
                  max_string_bytes_def max_mem_def rust_handler_component_def)
  show ?thesis
    using hyps wf test_request_utf8
      call_handleevent_idempotent [of rust_handle rust_store test_request]
    by simp
qed

theorem rust_guest_body_passthrough_witness:
  "unat (2048::u32) + unat (8::u32) \<le> length (g_mem small_guest) \<and>
   ret_area + 8 \<le> length (g_mem small_guest) \<and>
   rust_guest_body small_guest [2048, 8] =
     Some (Inr (small_guest\<lparr>g_mem := write_bytes (g_mem small_guest) ret_area
                  (le32_encode 2048 @ le32_encode 8)\<rparr>, [word_of_nat ret_area]))"
  using rust_guest_body_passthrough [of 2048 8 small_guest]
  by (simp add: small_guest_def ret_area_def)

theorem lift_lower_string_witness:
  "guest_wf small_guest \<and> utf8_valid (str_bytes ''Test URI'') \<and>
   (\<exists>g' p n. lower_string small_guest ''Test URI'' = Inr (g', p, n) \<and>
             lift_string (g_mem g') p n = Inr ''Test URI'')"
proof -
  have wf: "guest_wf small_guest"
    by (simp add: small_guest_def guest_wf_def page_size_def max_mem_def)
  have v: "utf8_valid (str_bytes ''Test URI'')"
    using test_request_utf8 by (simp add: test_request_def)
  obtain g' p n where lo: "lower_string small_guest ''Test URI'' = Inr (g', p, n)"
    using lower_string_succeeds [of small_guest "''Test URI''"] wf
    by (auto simp: small_guest_def max_string_bytes_def max_mem_def)
  show ?thesis
    using wf v lo lift_lower_string [of small_guest "''Test URI''" g' p n] by blast
qed


theorem call_handleevent_trap_witness:
  "\<exists>st'. call_handleevent trap_handle trap_store test_request = Some (Inl (CallErr (Trap TrapUnreachable)), st') \<and>
         is_poisoned (st_instances st' ! hw_instance trap_handle)"
proof -
  obtain st' where eq: "call_handleevent trap_handle trap_store test_request =
                          Some (Inl (CallErr (Trap TrapUnreachable)), st')"
    by (simp add: call_handleevent_def trap_handle_def trap_store_def trap_instance_def
          trapping_export_def lower_request_def lower_string_def small_guest_def test_request_def
          cabi_realloc_def max_string_bytes_def Let_def)
  show ?thesis using eq call_handleevent_trap [OF eq] by blast
qed

theorem call_handleevent_frame_witness:
  "\<exists>res st'. call_handleevent trap_handle trap_store test_request = Some (res, st') \<and>
     st_data st' = st_data trap_store \<and> length (st_instances st') = 2 \<and>
     st_instances st' ! 1 = trap_instance"
proof -
  obtain res st' where eq: "call_handleevent trap_handle trap_store test_request = Some (res, st')"
    by (simp add: call_handleevent_def trap_handle_def trap_store_def trap_instance_def
          trapping_export_def lower_request_def lower_string_def small_guest_def test_request_def
          cabi_realloc_def max_string_bytes_def Let_def)
  show ?thesis using eq call_handleevent_frame [OF eq]
    by (auto simp: trap_handle_def trap_store_def)
qed

theorem call_seq_poisoned_witness:
  "call_seq trap_handle poisoned_store poisoned_store \<and>
   hw_instance trap_handle < length (st_instances poisoned_store) \<and>
   is_poisoned (st_instances poisoned_store ! hw_instance trap_handle) \<and>
   call_handleevent trap_handle poisoned_store test_request =
     Some (Inl (CallErr CannotReenter), poisoned_store)"
proof -
  have h: "call_seq trap_handle poisoned_store poisoned_store \<and>
     hw_instance trap_handle < length (st_instances poisoned_store) \<and>
     is_poisoned (st_instances poisoned_store ! hw_instance trap_handle)"
    by (simp add: call_seq.seq_refl trap_handle_def poisoned_store_def)
  then show ?thesis
    using call_seq_poisoned [of trap_handle poisoned_store poisoned_store test_request] by simp
qed

theorem deserialize_unvalidated_witness:
  "\<not> wf_component (rust_handler_component\<lparr>c_heap_base := 2 ^ 40\<rparr>) \<and>
   deserialize_file engine_default (artifacts_of (rust_handler_component\<lparr>c_heap_base := 2 ^ 40\<rparr>))
     rs_cwasm_path = Inr (Precompiled (rust_handler_component\<lparr>c_heap_base := 2 ^ 40\<rparr>)) \<and>
   component_from_file engine_default (artifacts_of (rust_handler_component\<lparr>c_heap_base := 2 ^ 40\<rparr>))
     rs_wasm_path = Inl (LoadErr Malformed)"
proof -
  have nwf: "\<not> wf_component (rust_handler_component\<lparr>c_heap_base := 2 ^ 40\<rparr>)"
    by (simp add: wf_component_def rust_handler_component_def page_size_def)
  have ne: "rs_wasm_path \<noteq> rs_cwasm_path"
    by (simp add: rs_wasm_path_def rs_cwasm_path_def)
  show ?thesis
    using nwf ne deserialize_unvalidated [of "rust_handler_component\<lparr>c_heap_base := 2 ^ 40\<rparr>"
        "artifacts_of (rust_handler_component\<lparr>c_heap_base := 2 ^ 40\<rparr>)"
        rs_cwasm_path engine_default rs_wasm_path]
    by (simp add: artifacts_of_def cwasm_of_def engine_default_def)
qed

theorem instantiate_Inr_witness:
  "instantiate (store_new engine_default runner_state) (SourceCompiled rust_handler_component)
     \<lparr>lk_instances = map_of wasi_p2_sync\<rparr> =
     Inr (rust_store, rust_handle) \<and>
   list_all (import_satisfied \<lparr>lk_instances = map_of wasi_p2_sync\<rparr>) (c_imports rust_handler_component) \<and>
   st_instances rust_store = [new_instance rust_handler_component]"
proof -
  have eq: "instantiate (store_new engine_default runner_state) (SourceCompiled rust_handler_component)
              \<lparr>lk_instances = map_of wasi_p2_sync\<rparr> = Inr (rust_store, rust_handle)"
    by (simp add: instantiate_def rust_store_def rust_handle_def store_new_def deployment_simps)
  show ?thesis using eq instantiate_Inr [OF eq] by (simp add: rust_store_def)
qed

theorem cabi_realloc_exhausted_witness:
  "guest_wf small_guest \<and> max_mem < g_heap small_guest + 2 ^ 32 \<and>
   cabi_realloc small_guest (2 ^ 32) = Inl TrapUnreachable"
proof -
  have h: "guest_wf small_guest \<and> max_mem < g_heap small_guest + 2 ^ 32"
    by (simp add: small_guest_def guest_wf_def page_size_def max_mem_def)
  then show ?thesis using cabi_realloc_exhausted [of small_guest "2 ^ 32"] by simp
qed

theorem lower_string_too_long_witness:
  "max_string_bytes < length (replicate (2 ^ 31) CHR ''a'') \<and>
   lower_string small_guest (replicate (2 ^ 31) CHR ''a'') = Inl StringTooLong"
  using lower_string_too_long [of "replicate (2 ^ 31) CHR ''a''" small_guest]
  by (simp add: max_string_bytes_def)

theorem le32_encode_decode_witness:
  "length [1, 2, 3, 4 :: byte] = 4 \<and> le32_encode (le32_decode [1, 2, 3, 4]) = [1, 2, 3, 4]"
  using le32_encode_decode [of "[1, 2, 3, 4]"] by simp

theorem utf8_valid_append_witness:
  "utf8_valid (str_bytes ''Test'') \<and> utf8_valid [0xC3, 0xA9] \<and>
   utf8_valid (str_bytes ''Test'' @ [0xC3, 0xA9])"
proof -
  have a: "utf8_valid (str_bytes ''Test'')"
    by (simp add: str_bytes_def byte_of_char_def utf8_seq_def)
  have b: "utf8_valid [0xC3, 0xA9]"
    by (simp add: utf8_seq_def in_range_def second_lo_def second_hi_def)
  show ?thesis using a b utf8_valid_append [OF a b] by simp
qed

theorem component_path_modes_differ_witness:
  "component_path manifest_dir ''rs'' True = Some rs_cwasm_path \<and>
   component_path manifest_dir ''rs'' False = Some rs_wasm_path \<and> rs_cwasm_path \<noteq> rs_wasm_path"
proof -
  have a: "component_path manifest_dir ''rs'' True = Some rs_cwasm_path"
    and b: "component_path manifest_dir ''rs'' False = Some rs_wasm_path"
    by (simp_all add: component_path_def ext_def manifest_dir_def rs_cwasm_path_def rs_wasm_path_def)
  show ?thesis using a b component_path_modes_differ [OF a b] by simp
qed

theorem instantiate_unresolved_witness:
  "find (\<lambda>imp. \<not> import_satisfied \<lparr>lk_instances = map_of wasi_p2_sync\<rparr> imp)
        (c_imports (artifact_code (SourceCompiled http_client_component))) = Some http_import \<and>
   instantiate (store_new engine_default runner_state) (SourceCompiled http_client_component)
     \<lparr>lk_instances = map_of wasi_p2_sync\<rparr> =
     Inl (InstErr (UnresolvedImport ''wasi:http/outgoing-handler''))"
proof -
  have f: "find (\<lambda>imp. \<not> import_satisfied \<lparr>lk_instances = map_of wasi_p2_sync\<rparr> imp)
        (c_imports (artifact_code (SourceCompiled http_client_component))) = Some http_import"
    by (simp add: http_client_component_def http_import_def deployment_simps)
  show ?thesis
    using f instantiate_unresolved [OF f, of "store_new engine_default runner_state"]
    by (simp add: http_import_def)
qed

theorem call_handleevent_no_memory_witness:
  "hw_instance rust_handle < length (st_instances full_store) \<and>
   \<not> is_poisoned (st_instances full_store ! hw_instance rust_handle) \<and>
   guest_wf (is_guest (st_instances full_store ! hw_instance rust_handle)) \<and>
   length (uri test_request) \<le> max_string_bytes \<and>
   max_mem < g_heap (is_guest (st_instances full_store ! hw_instance rust_handle)) + length (uri test_request) \<and>
   call_handleevent rust_handle full_store test_request =
     Some (Inl (CallErr (Trap TrapUnreachable)), poison full_store 0)"
proof -
  have h: "hw_instance rust_handle < length (st_instances full_store) \<and>
   \<not> is_poisoned (st_instances full_store ! hw_instance rust_handle) \<and>
   guest_wf (is_guest (st_instances full_store ! hw_instance rust_handle)) \<and>
   length (uri test_request) \<le> max_string_bytes \<and>
   max_mem < g_heap (is_guest (st_instances full_store ! hw_instance rust_handle)) + length (uri test_request)"
    by (simp add: rust_handle_def full_store_def guest_wf_def page_size_def max_mem_def
                  test_request_def max_string_bytes_def)
  then show ?thesis
    using call_handleevent_no_memory [of rust_handle full_store test_request]
    by (simp add: rust_handle_def)
qed


theorem call_handleevent_no_leak_witness:
  "hw_instance rust_handle < length (st_instances rust_store) \<and>
   \<not> is_poisoned (st_instances rust_store ! hw_instance rust_handle) \<and>
   hw_handleevent rust_handle = rust_handleevent_export \<and>
   rust_guest_wf (is_guest (st_instances rust_store ! hw_instance rust_handle)) \<and>
   utf8_valid (str_bytes (uri test_request)) \<and> length (uri test_request) \<le> max_string_bytes \<and>
   g_heap (is_guest (st_instances rust_store ! hw_instance rust_handle)) + length (uri test_request) \<le> max_mem \<and>
   (\<exists>st'. call_handleevent rust_handle rust_store test_request = Some (Inr test_request, st') \<and>
          g_heap (is_guest (st_instances st' ! 0)) = 1048576 \<and>
          \<not> is_poisoned (st_instances st' ! 0))"
proof -
  have wf: "rust_guest_wf (is_guest (st_instances rust_store ! hw_instance rust_handle))"
    using new_instance_rust_wf [of rust_handler_component]
    by (simp add: rust_store_def rust_handle_def deployment_simps)
  have hyps: "hw_instance rust_handle < length (st_instances rust_store) \<and>
   \<not> is_poisoned (st_instances rust_store ! hw_instance rust_handle) \<and>
   hw_handleevent rust_handle = rust_handleevent_export \<and>
   length (uri test_request) \<le> max_string_bytes \<and>
   g_heap (is_guest (st_instances rust_store ! hw_instance rust_handle)) + length (uri test_request) \<le> max_mem"
    by (simp add: rust_store_def rust_handle_def new_instance_def test_request_def
                  max_string_bytes_def max_mem_def rust_handler_component_def)
  have heap: "g_heap (is_guest (st_instances rust_store ! hw_instance rust_handle)) = 1048576"
    by (simp add: rust_store_def rust_handle_def new_instance_def rust_handler_component_def)
  show ?thesis
    using hyps wf heap test_request_utf8
      call_handleevent_no_leak [of rust_handle rust_store test_request]
    by (simp add: rust_handle_def) blast
qed

theorem add_to_linker_sync_twice_witness:
  "add_to_linker_sync linker_new = Inr \<lparr>lk_instances = map_of wasi_p2_sync\<rparr> \<and>
   add_to_linker_sync \<lparr>lk_instances = map_of wasi_p2_sync\<rparr> =
     Inl (LinkErr (DefinedTwice ''wasi:io/error'' ''[method]error.to-debug-string''))"
  using add_to_linker_sync_new add_to_linker_sync_twice [OF add_to_linker_sync_new] by simp


end
